theory Spec2Isabelle
  imports Complex_Main "HOL-Library.Multiset"
begin

section \<open>JavaScript values\<close>

text \<open>
  The tool handlers of the server work on the JSON that the provider returns.
  A number is \<open>NaN\<close>, an infinity, or finite: then it is the rational value of a
  double, and an arithmetic operation rounds its exact result to the nearest double
  (see below). The sign of zero is not modelled. An object is the list of its own
  properties, in insertion order, with distinct keys. Strings are ASCII.
\<close>

datatype jsnum = Fin rat | NaN | Inf bool

datatype jsval =
    JUndefined
  | JNull
  | JBool bool
  | JNum jsnum
  | JStr string
  | JArr "jsval list"
  | JObj "(string \<times> jsval) list"



text \<open>An exception: a \<^verbatim>\<open>TypeError\<close> of the engine, or the error axios rejects with
  (\<open>response\<close> is \<^verbatim>\<open>error.response.data\<close> when the provider answered).\<close>

datatype js_error =
    TypeError string
  | AxiosError string "jsval option"

type_synonym 'a result = "js_error + 'a"

text \<open>
  What the language leaves to the implementation, or what depends on the shortest
  digits of a double, is a parameter: the parser behind \<^verbatim>\<open>new Date(string)\<close>, the
  conversion of a string to a number, the digits printed for a number that is not an
  integer, and the order in which \<^verbatim>\<open>sort\<close> leaves an array when the comparator is
  not a consistent one (given as the list of the positions that the elements had
  before). An integer is printed by its decimal digits: the language does so below
  \<open>10\<^sup>2\<^sup>1\<close>, which covers the lengths that the handlers print. The wording of a
  \<^verbatim>\<open>TypeError\<close> is the engine's; no property below depends on it.
\<close>

record host =
  Date_parse :: "string \<Rightarrow> jsnum"
  StringToNumber :: "string \<Rightarrow> jsnum"
  NumberToString :: "rat \<Rightarrow> string"
  Inconsistent_sort :: "(jsval \<Rightarrow> jsval \<Rightarrow> jsnum result) \<Rightarrow> jsval list \<Rightarrow> nat list"

definition bind_result :: "'a result \<Rightarrow> ('a \<Rightarrow> 'b result) \<Rightarrow> 'b result" where
  "bind_result r f = (case r of Inl e \<Rightarrow> Inl e | Inr v \<Rightarrow> f v)"

fun mapM :: "('a \<Rightarrow> 'b result) \<Rightarrow> 'a list \<Rightarrow> 'b list result" where
  "mapM f [] = Inr []"
| "mapM f (x # xs) =
     (case f x of
        Inl e \<Rightarrow> Inl e
      | Inr y \<Rightarrow> (case mapM f xs of Inl e \<Rightarrow> Inl e | Inr ys \<Rightarrow> Inr (y # ys)))"

fun message :: "js_error \<Rightarrow> string" where
  "message (TypeError m) = m"
| "message (AxiosError m r) = m"

fun truthy :: "jsval \<Rightarrow> bool" where
  "truthy JUndefined = False"
| "truthy JNull = False"
| "truthy (JBool b) = b"
| "truthy (JNum (Fin r)) = (r \<noteq> 0)"
| "truthy (JNum NaN) = False"
| "truthy (JNum (Inf s)) = True"
| "truthy (JStr s) = (s \<noteq> [])"
| "truthy (JArr xs) = True"
| "truthy (JObj kvs) = True"

definition nullish :: "jsval \<Rightarrow> bool" where
  "nullish v = (v = JUndefined \<or> v = JNull)"

definition or_else :: "jsval \<Rightarrow> jsval \<Rightarrow> jsval" where
  \<comment> \<open>\<^verbatim>\<open>a || b\<close>\<close>
  "or_else a b = (if truthy a then a else b)"

definition isArray :: "jsval \<Rightarrow> bool" where
  "isArray v = (case v of JArr xs \<Rightarrow> True | _ \<Rightarrow> False)"

definition num :: "nat \<Rightarrow> jsval" where
  "num n = JNum (Fin (of_nat n))"

text \<open>Reading a property of a value that is neither null nor undefined. Only data
  properties are read by name in the handlers; methods are modelled where they are called.\<close>

fun lookup :: "jsval \<Rightarrow> string \<Rightarrow> jsval" where
  "lookup (JObj kvs) k = (case map_of kvs k of Some v \<Rightarrow> v | None \<Rightarrow> JUndefined)"
| "lookup (JArr xs) k = (if k = ''length'' then num (length xs) else JUndefined)"
| "lookup (JStr s) k = (if k = ''length'' then num (length s) else JUndefined)"
| "lookup v k = JUndefined"

definition get :: "jsval \<Rightarrow> string \<Rightarrow> jsval result" where
  "get v k =
     (if v = JUndefined then
        Inl (TypeError (''Cannot read properties of undefined (reading '' @ [CHR 0x27] @ k @ [CHR 0x27] @ '')''))
      else if v = JNull then
        Inl (TypeError (''Cannot read properties of null (reading '' @ [CHR 0x27] @ k @ [CHR 0x27] @ '')''))
      else Inr (lookup v k))"

definition hasOwnProperty :: "jsval \<Rightarrow> string \<Rightarrow> bool" where
  "hasOwnProperty v k = (case v of JObj kvs \<Rightarrow> k \<in> set (map fst kvs) | _ \<Rightarrow> False)"

fun set_prop :: "(string \<times> jsval) list \<Rightarrow> string \<Rightarrow> jsval \<Rightarrow> (string \<times> jsval) list" where
  "set_prop [] k v = [(k, v)]"
| "set_prop ((k', v') # kvs) k v =
     (if k' = k then (k, v) # kvs else (k', v') # set_prop kvs k v)"

definition Object_keys :: "jsval \<Rightarrow> string list" where
  \<comment> \<open>of a truthy value; only the number of keys is used\<close>
  "Object_keys v =
     (case v of
        JObj kvs \<Rightarrow> map fst kvs
      | JArr xs \<Rightarrow> map (\<lambda>i. ''#'') xs
      | JStr s \<Rightarrow> map (\<lambda>c. ''#'') s
      | _ \<Rightarrow> [])"

definition Object_values :: "jsval \<Rightarrow> jsval list" where
  "Object_values v =
     (case v of
        JObj kvs \<Rightarrow> map snd kvs
      | JArr xs \<Rightarrow> xs
      | JStr s \<Rightarrow> map (\<lambda>c. JStr [c]) s
      | _ \<Rightarrow> [])"

definition flat :: "jsval list \<Rightarrow> jsval list" where
  "flat xs = concat (map (\<lambda>v. case v of JArr ys \<Rightarrow> ys | _ \<Rightarrow> [v]) xs)"

subsection \<open>Strings and numbers\<close>

function show_nat :: "nat \<Rightarrow> string" where
  "show_nat n =
     (if n < 10 then [''0123456789'' ! n]
      else show_nat (n div 10) @ [''0123456789'' ! (n mod 10)])"
  by pat_completeness auto
termination
  by (relation "measure id") auto

declare show_nat.simps [simp del]

definition Number_toString :: "host \<Rightarrow> jsnum \<Rightarrow> string" where
  "Number_toString h n =
     (case n of
        NaN \<Rightarrow> ''NaN''
      | Inf s \<Rightarrow> (if s then ''Infinity'' else ''-Infinity'')
      | Fin r \<Rightarrow>
          (if r = of_int \<lfloor>r\<rfloor> then
             (if r < 0 then ''-'' else '''') @ show_nat (nat \<bar>\<lfloor>r\<rfloor>\<bar>)
           else NumberToString h r))"

fun join :: "string \<Rightarrow> string list \<Rightarrow> string" where
  "join sep [] = ''''"
| "join sep [s] = s"
| "join sep (s # t # ss) = s @ sep @ join sep (t # ss)"

fun ToString :: "host \<Rightarrow> jsval \<Rightarrow> string" where
  "ToString h JUndefined = ''undefined''"
| "ToString h JNull = ''null''"
| "ToString h (JBool b) = (if b then ''true'' else ''false'')"
| "ToString h (JNum n) = Number_toString h n"
| "ToString h (JStr s) = s"
| "ToString h (JArr xs) =
     join '','' (map (\<lambda>v. if nullish v then '''' else ToString h v) xs)"
| "ToString h (JObj kvs) = ''[object Object]''"

definition ToNumber :: "host \<Rightarrow> jsval \<Rightarrow> jsnum" where
  "ToNumber h v =
     (case v of
        JUndefined \<Rightarrow> NaN
      | JNull \<Rightarrow> Fin 0
      | JBool b \<Rightarrow> Fin (if b then 1 else 0)
      | JNum n \<Rightarrow> n
      | JStr s \<Rightarrow> StringToNumber h s
      | JArr xs \<Rightarrow> StringToNumber h (ToString h (JArr xs))
      | JObj kvs \<Rightarrow> NaN)"

text \<open>
  Rounding a rational to the nearest double, ties to even. For \<open>a > 0\<close>, \<open>exponent a\<close>
  is the \<open>e\<close> with \<open>2\<^sup>e \<le> a < 2\<^sup>e\<^sup>+\<^sup>1\<close>, kept within \<open>-1022\<close> and
  \<open>1023\<close>; the doubles next to \<open>a\<close> are multiples of \<open>2\<^sup>e\<^sup>-\<^sup>5\<^sup>2\<close>; a rounded
  magnitude of \<open>2\<^sup>1\<^sup>0\<^sup>2\<^sup>4\<close> or more is an infinity.
\<close>

function raise :: "int \<Rightarrow> rat \<Rightarrow> int" where
  "raise e a = (if e < 1023 \<and> 2 powi (e + 1) \<le> a then raise (e + 1) a else e)"
  by pat_completeness auto
termination
  by (relation "measure (\<lambda>(e, a). nat (1023 - e))") auto

function lower :: "int \<Rightarrow> rat \<Rightarrow> int" where
  "lower e a = (if - 1022 < e \<and> a < 2 powi e then lower (e - 1) a else e)"
  by pat_completeness auto
termination
  by (relation "measure (\<lambda>(e, a). nat (e + 1022))") auto

declare raise.simps [simp del] lower.simps [simp del]

definition exponent :: "rat \<Rightarrow> int" where
  "exponent a = lower (raise 0 a) a"

definition round_half_even :: "rat \<Rightarrow> int" where
  "round_half_even x =
     (let f = \<lfloor>x\<rfloor>; d = x - of_int f
      in if d < 1 / 2 then f else if 1 / 2 < d then f + 1 else if even f then f else f + 1)"

definition round_double :: "rat \<Rightarrow> jsnum" where
  "round_double r =
     (if r = 0 then Fin 0
      else
        let a = \<bar>r\<bar>;
            u = 2 powi (exponent a - 52);
            v = of_int (round_half_even (a / u)) * u
        in if 2 powi 1024 \<le> v then Inf (0 < r) else Fin (if r < 0 then - v else v))"

fun js_sub :: "jsnum \<Rightarrow> jsnum \<Rightarrow> jsnum" where
  "js_sub (Fin a) (Fin b) = round_double (a - b)"
| "js_sub NaN y = NaN"
| "js_sub x NaN = NaN"
| "js_sub (Inf s) (Inf t) = (if s = t then NaN else Inf s)"
| "js_sub (Inf s) (Fin b) = Inf s"
| "js_sub (Fin a) (Inf t) = Inf (\<not> t)"

fun js_mul :: "jsnum \<Rightarrow> jsnum \<Rightarrow> jsnum" where
  "js_mul (Fin a) (Fin b) = round_double (a * b)"
| "js_mul NaN y = NaN"
| "js_mul x NaN = NaN"
| "js_mul (Inf s) (Inf t) = Inf (s = t)"
| "js_mul (Inf s) (Fin b) = (if b = 0 then NaN else Inf (s = (0 < b)))"
| "js_mul (Fin a) (Inf t) = (if a = 0 then NaN else Inf (t = (0 < a)))"

fun js_div :: "jsnum \<Rightarrow> jsnum \<Rightarrow> jsnum" where
  "js_div (Fin a) (Fin b) =
     (if b = 0 then (if a = 0 then NaN else Inf (0 < a)) else round_double (a / b))"
| "js_div NaN y = NaN"
| "js_div x NaN = NaN"
| "js_div (Inf s) (Inf t) = NaN"
| "js_div (Inf s) (Fin b) = Inf (s = (0 \<le> b))"
| "js_div (Fin a) (Inf t) = Fin 0"

fun js_gt :: "jsnum \<Rightarrow> jsnum \<Rightarrow> bool" where
  \<comment> \<open>\<^verbatim>\<open>x > y\<close> on numbers\<close>
  "js_gt (Fin a) (Fin b) = (b < a)"
| "js_gt NaN y = False"
| "js_gt x NaN = False"
| "js_gt (Inf s) (Inf t) = (s \<and> \<not> t)"
| "js_gt (Inf s) (Fin b) = s"
| "js_gt (Fin a) (Inf t) = (\<not> t)"

definition Math_max :: "jsnum list \<Rightarrow> jsnum" where
  "Math_max ns =
     (if NaN \<in> set ns then NaN
      else fold (\<lambda>n m. if js_gt n m then n else m) ns (Inf False))"

definition Math_min :: "jsnum list \<Rightarrow> jsnum" where
  "Math_min ns =
     (if NaN \<in> set ns then NaN
      else fold (\<lambda>n m. if js_gt m n then n else m) ns (Inf True))"

subsection \<open>Dates and sorting\<close>

definition TimeClip :: "jsnum \<Rightarrow> jsnum" where
  \<comment> \<open>a time value is an integer number of milliseconds within the range of dates, or \<open>NaN\<close>\<close>
  "TimeClip n =
     (case n of
        Fin t \<Rightarrow>
          (if \<bar>t\<bar> \<le> 8640000000000000 then Fin (of_int (if t < 0 then \<lceil>t\<rceil> else \<lfloor>t\<rfloor>))
           else NaN)
      | _ \<Rightarrow> NaN)"

definition new_Date :: "host \<Rightarrow> jsval \<Rightarrow> jsnum" where
  \<comment> \<open>the time value of \<^verbatim>\<open>new Date(v)\<close>: finite, or \<open>NaN\<close> for an invalid date\<close>
  "new_Date h v =
     (case v of
        JStr s \<Rightarrow> TimeClip (Date_parse h s)
      | JUndefined \<Rightarrow> NaN
      | JObj kvs \<Rightarrow> TimeClip (Date_parse h ''[object Object]'')
      | JArr xs \<Rightarrow> TimeClip (Date_parse h (ToString h (JArr xs)))
      | _ \<Rightarrow> TimeClip (ToNumber h v))"

definition newest_first :: "host \<Rightarrow> jsval \<Rightarrow> jsval \<Rightarrow> jsnum result" where
  \<comment> \<open>\<^verbatim>\<open>(a, b) => new Date(b.date) - new Date(a.date)\<close>\<close>
  "newest_first h a b =
     bind_result (get b ''date'') (\<lambda>db.
     bind_result (get a ''date'') (\<lambda>da.
       Inr (js_sub (new_Date h db) (new_Date h da))))"

definition oldest_first :: "host \<Rightarrow> jsval \<Rightarrow> jsval \<Rightarrow> jsnum result" where
  \<comment> \<open>\<^verbatim>\<open>(a, b) => new Date(a.date) - new Date(b.date)\<close>\<close>
  "oldest_first h a b =
     bind_result (get a ''date'') (\<lambda>da.
     bind_result (get b ''date'') (\<lambda>db.
       Inr (js_sub (new_Date h da) (new_Date h db))))"

text \<open>
  \<^verbatim>\<open>Array.prototype.sort\<close> is stable and puts \<^verbatim>\<open>undefined\<close> elements last without
  comparing them. For a consistent comparator every stable algorithm returns the same
  array; \<open>sort_defined\<close> inserts each element before the first one it does not sort
  after (a result that is \<open>NaN\<close> counts as zero). An exception of the comparator ends the
  sort: with two elements or more every element is compared at least once, and the two
  comparators by date raise for a \<^verbatim>\<open>null\<close> element only, always with the same
  message.
\<close>

fun insert_sorted :: "('a \<Rightarrow> 'a \<Rightarrow> jsnum result) \<Rightarrow> 'a \<Rightarrow> 'a list \<Rightarrow> 'a list result" where
  "insert_sorted cmp x [] = Inr [x]"
| "insert_sorted cmp x (y # ys) =
     (case cmp x y of
        Inl e \<Rightarrow> Inl e
      | Inr v \<Rightarrow>
          (if js_gt v (Fin 0) then
             (case insert_sorted cmp x ys of Inl e \<Rightarrow> Inl e | Inr zs \<Rightarrow> Inr (y # zs))
           else Inr (x # y # ys)))"

fun sort_defined :: "('a \<Rightarrow> 'a \<Rightarrow> jsnum result) \<Rightarrow> 'a list \<Rightarrow> 'a list result" where
  "sort_defined cmp [] = Inr []"
| "sort_defined cmp (x # xs) =
     (case sort_defined cmp xs of Inl e \<Rightarrow> Inl e | Inr ys \<Rightarrow> insert_sorted cmp x ys)"

text \<open>
  A comparator is consistent for the elements of an array, as the language defines
  it, when it returns a number that is not \<open>NaN\<close> for every pair of them, and the
  relations \<open>a <\<^sub>C\<^sub>F b\<close> (the result is negative), \<open>a =\<^sub>C\<^sub>F b\<close> (it is zero) and
  \<open>a >\<^sub>C\<^sub>F b\<close> (it is positive) are reflexive, symmetric and transitive as below.
  When it is not, the order is the implementation's: some rearrangement of the
  elements, here the one the host names (a list that does not name every position once
  is ignored).
\<close>

definition before :: "(jsval \<Rightarrow> jsval \<Rightarrow> jsnum result) \<Rightarrow> jsval \<Rightarrow> jsval \<Rightarrow> bool" where
  "before cmp a b = (case cmp a b of Inr v \<Rightarrow> js_gt (Fin 0) v | Inl e \<Rightarrow> False)"

definition same :: "(jsval \<Rightarrow> jsval \<Rightarrow> jsnum result) \<Rightarrow> jsval \<Rightarrow> jsval \<Rightarrow> bool" where
  "same cmp a b = (case cmp a b of Inr v \<Rightarrow> v = Fin 0 | Inl e \<Rightarrow> False)"

definition after :: "(jsval \<Rightarrow> jsval \<Rightarrow> jsnum result) \<Rightarrow> jsval \<Rightarrow> jsval \<Rightarrow> bool" where
  "after cmp a b = (case cmp a b of Inr v \<Rightarrow> js_gt v (Fin 0) | Inl e \<Rightarrow> False)"

definition consistent :: "(jsval \<Rightarrow> jsval \<Rightarrow> jsnum result) \<Rightarrow> jsval list \<Rightarrow> bool" where
  "consistent cmp xs =
     ((\<forall>a\<in>set xs. \<forall>b\<in>set xs. case cmp a b of Inr v \<Rightarrow> v \<noteq> NaN | Inl e \<Rightarrow> False)
      \<and> (\<forall>a\<in>set xs. same cmp a a)
      \<and> (\<forall>a\<in>set xs. \<forall>b\<in>set xs. same cmp a b \<longrightarrow> same cmp b a)
      \<and> (\<forall>a\<in>set xs. \<forall>b\<in>set xs. \<forall>c\<in>set xs.
            (same cmp a b \<and> same cmp b c \<longrightarrow> same cmp a c)
            \<and> (before cmp a b \<and> before cmp b c \<longrightarrow> before cmp a c)
            \<and> (after cmp a b \<and> after cmp b c \<longrightarrow> after cmp a c)))"

definition Array_sort ::
  "host \<Rightarrow> (jsval \<Rightarrow> jsval \<Rightarrow> jsnum result) \<Rightarrow> jsval list \<Rightarrow> jsval list result" where
  "Array_sort h cmp xs =
     (let defined = filter (\<lambda>v. v \<noteq> JUndefined) xs;
          undefineds = filter (\<lambda>v. v = JUndefined) xs
      in case sort_defined cmp defined of
           Inl e \<Rightarrow> Inl e
         | Inr ys \<Rightarrow>
             Inr ((if length defined \<le> 1 then ys
                   else if consistent cmp defined then ys
                   else
                     let order = Inconsistent_sort h cmp defined
                     in if sort order = [0..<length defined]
                        then map (\<lambda>i. defined ! i) order else ys) @ undefineds))"

section \<open>Tool results\<close>

text \<open>
  The text of a content item is a string, or \<^verbatim>\<open>JSON.stringify(v, null, 2)\<close>, kept as
  the value \<open>v\<close> it serialises. \<open>json\<close> is the JSON value the text denotes: a property
  whose value is undefined is left out, undefined in an array and a number that is
  not finite become null.
\<close>

datatype text_value = Plain string | JSON_stringify jsval

record content_item =
  item_type :: string
  item_text :: text_value

type_synonym tool_result = "content_item list"

definition text_result :: "text_value \<Rightarrow> tool_result" where
  \<comment> \<open>\<^verbatim>\<open>{ content: [{ type: "text", text: t }] }\<close>\<close>
  "text_result t = [\<lparr>item_type = ''text'', item_text = t\<rparr>]"

fun json :: "jsval \<Rightarrow> jsval" where
  "json (JObj kvs) = JObj (map (\<lambda>(k, v). (k, json v)) (filter (\<lambda>(k, v). v \<noteq> JUndefined) kvs))"
| "json (JArr xs) = JArr (map (\<lambda>v. if v = JUndefined then JNull else json v) xs)"
| "json (JNum n) = (case n of Fin r \<Rightarrow> JNum (Fin r) | _ \<Rightarrow> JNull)"
| "json v = v"

datatype detail = summary | full

section \<open>historical_stock_data\<close>

definition POINTS_THRESHOLD_FOR_SUMMARY :: nat where
  "POINTS_THRESHOLD_FOR_SUMMARY = 60"

definition RECENT_POINTS_TO_SHOW_WITH_SUMMARY :: nat where
  "RECENT_POINTS_TO_SHOW_WITH_SUMMARY = 5"

definition MAX_POINTS_FOR_FULL_DETAIL :: nat where
  "MAX_POINTS_FOR_FULL_DETAIL = 150"

definition ohlcv :: "jsval \<Rightarrow> jsval result" where
  \<comment> \<open>\<^verbatim>\<open>(p) => ({ date: p.date, open: p.open, high: p.high, low: p.low, close: p.close, volume: p.volume })\<close>\<close>
  "ohlcv p =
     bind_result (get p ''date'') (\<lambda>d.
       Inr (JObj [(''date'', d), (''open'', lookup p ''open''), (''high'', lookup p ''high''),
                  (''low'', lookup p ''low''), (''close'', lookup p ''close''),
                  (''volume'', lookup p ''volume'')]))"

definition priceChangePercent :: "host \<Rightarrow> jsval \<Rightarrow> jsval \<Rightarrow> jsval" where
  "priceChangePercent h chronologicalFirst chronologicalLast =
     (if truthy (lookup chronologicalLast ''close'') \<and> truthy (lookup chronologicalFirst ''close'') then
        JNum (js_mul
          (js_div
             (js_sub (ToNumber h (lookup chronologicalLast ''close''))
                     (ToNumber h (lookup chronologicalFirst ''close'')))
             (ToNumber h (lookup chronologicalFirst ''close'')))
          (Fin 100))
      else JNull)"

definition summary_message :: "host \<Rightarrow> nat \<Rightarrow> jsval \<Rightarrow> jsval \<Rightarrow> string" where
  "summary_message h n chronologicalFirst chronologicalLast =
     ''Summarized '' @ show_nat n @ '' data points from '' @
     ToString h (lookup chronologicalFirst ''date'') @ '' to '' @
     ToString h (lookup chronologicalLast ''date'') @ ''. Showing '' @
     show_nat RECENT_POINTS_TO_SHOW_WITH_SUMMARY @
     '' most recent points. Request '' @ [CHR 0x27] @ ''full'' @ [CHR 0x27] @
     '' detail for more data points (up to '' @ show_nat MAX_POINTS_FOR_FULL_DETAIL @ '').''"

definition summarizedHistory :: "host \<Rightarrow> jsval list \<Rightarrow> jsval result" where
  \<comment> \<open>the branch \<^verbatim>\<open>dataPoints.length > POINTS_THRESHOLD_FOR_SUMMARY\<close>; \<open>dataPoints\<close> is not empty there\<close>
  "summarizedHistory h dataPoints =
     bind_result (Array_sort h (oldest_first h) dataPoints) (\<lambda>chronologicalPoints.
     let chronologicalFirst = hd chronologicalPoints;
         chronologicalLast = last chronologicalPoints
     in
     bind_result (mapM (\<lambda>p. get p ''high'') chronologicalPoints) (\<lambda>highs.
     bind_result (mapM (\<lambda>p. get p ''low'') chronologicalPoints) (\<lambda>lows.
     bind_result (mapM ohlcv (take RECENT_POINTS_TO_SHOW_WITH_SUMMARY dataPoints)) (\<lambda>recentData.
       Inr (JObj
         [(''message'', JStr (summary_message h (length dataPoints) chronologicalFirst chronologicalLast)),
          (''periodStartDate'', lookup chronologicalFirst ''date''),
          (''periodEndDate'', lookup chronologicalLast ''date''),
          (''startPrice'', lookup chronologicalFirst ''close''),
          (''endPrice'', lookup chronologicalLast ''close''),
          (''periodHigh'', JNum (Math_max (map (ToNumber h) highs))),
          (''periodLow'', JNum (Math_min (map (ToNumber h) lows))),
          (''priceChangePercent'', priceChangePercent h chronologicalFirst chronologicalLast),
          (''recentData'', JArr recentData)])))))"

definition series :: "jsval \<Rightarrow> jsval list" where
  \<comment> \<open>\<^verbatim>\<open>Array.isArray(history) ? history : Object.values(history).flat()\<close>\<close>
  "series history = (case history of JArr xs \<Rightarrow> xs | _ \<Rightarrow> flat (Object_values history))"

definition historical_body :: "host \<Rightarrow> detail \<Rightarrow> jsval \<Rightarrow> text_value result" where
  \<comment> \<open>the \<^verbatim>\<open>try\<close> block from \<^verbatim>\<open>response.data\<close> on\<close>
  "historical_body h detail data =
     bind_result (get data ''historical'') (\<lambda>hist.
     let history = or_else hist data in
     if \<not> truthy history
        \<or> (isArray history \<and> lookup history ''length'' = num 0)
        \<or> ((case history of JArr xs \<Rightarrow> True | JObj kvs \<Rightarrow> True | _ \<Rightarrow> False)
            \<and> length (Object_keys history) = 0)
     then Inr (Plain ''No historical data found for the given parameters.'')
     else
     bind_result (Array_sort h (newest_first h) (series history)) (\<lambda>dataPoints.
     if length dataPoints = 0
     then Inr (Plain ''No historical data points found after processing.'')
     else if detail = full then
       bind_result (mapM ohlcv (take MAX_POINTS_FOR_FULL_DETAIL dataPoints)) (\<lambda>limitedDetailedData.
         Inr (JSON_stringify (JObj
           [(''message'', JStr (''Showing '' @ show_nat (length limitedDetailedData) @ '' of '' @
               show_nat (length dataPoints) @
               '' fetched data points (full detail requested, capped at '' @
               show_nat MAX_POINTS_FOR_FULL_DETAIL @ '').'')),
            (''data'', JArr limitedDetailedData)])))
     else if length dataPoints > POINTS_THRESHOLD_FOR_SUMMARY then
       bind_result (summarizedHistory h dataPoints) (\<lambda>s. Inr (JSON_stringify s))
     else
       bind_result (mapM ohlcv dataPoints) (\<lambda>allAvailableData.
         Inr (JSON_stringify (JObj
           [(''message'', JStr (''Showing all '' @ show_nat (length allAvailableData) @
               '' fetched data points (below summary threshold).'')),
            (''data'', JArr allAvailableData)])))))"

definition historical_stock_data :: "host \<Rightarrow> detail \<Rightarrow> jsval result \<Rightarrow> tool_result" where
  \<comment> \<open>\<open>response\<close> is what \<^verbatim>\<open>axios.get(url)\<close> gives: a rejection, or \<^verbatim>\<open>response.data\<close>\<close>
  "historical_stock_data h detail response =
     (case bind_result response (historical_body h detail) of
        Inr t \<Rightarrow> text_result t
      | Inl error \<Rightarrow> text_result (Plain (''Error fetching historical_stock_data: '' @ message error)))"

section \<open>Helpers shared by the other tools\<close>

definition isObject :: "jsval \<Rightarrow> bool" where
  "isObject v = (case v of JObj kvs \<Rightarrow> True | _ \<Rightarrow> False)"

definition pick :: "jsval \<Rightarrow> string list \<Rightarrow> (string \<times> jsval) list" where
  \<comment> \<open>the properties \<^verbatim>\<open>k: v.k\<close> of an object literal, \<open>v\<close> neither null nor undefined\<close>
  "pick v ks = map (\<lambda>k. (k, lookup v k)) ks"

definition first_or_self :: "jsval \<Rightarrow> jsval" where
  \<comment> \<open>\<^verbatim>\<open>Array.isArray(d) ? d[0] : d\<close>\<close>
  "first_or_self d = (case d of JArr [] \<Rightarrow> JUndefined | JArr (x # xs) \<Rightarrow> x | _ \<Rightarrow> d)"

definition slice_map :: "string \<Rightarrow> jsval \<Rightarrow> nat \<Rightarrow> (jsval \<Rightarrow> jsval result) \<Rightarrow> jsval list result" where
  \<comment> \<open>\<^verbatim>\<open>v.slice(0, n).map(f)\<close> for a truthy \<open>v\<close>: only an array has both methods\<close>
  "slice_map name v n f =
     (case v of
        JArr xs \<Rightarrow> mapM f (take n xs)
      | JStr s \<Rightarrow> Inl (TypeError (name @ ''.slice(...).map is not a function''))
      | _ \<Rightarrow> Inl (TypeError (name @ ''.slice is not a function'')))"

definition truncated :: "host \<Rightarrow> string \<Rightarrow> jsval \<Rightarrow> nat \<Rightarrow> string \<Rightarrow> jsval result" where
  \<comment> \<open>\<^verbatim>\<open>t && t.length > n ? t.substring(0, n) + marker : t\<close>\<close>
  "truncated h name t n marker =
     (if truthy t \<and> js_gt (ToNumber h (lookup t ''length'')) (Fin (of_nat n)) then
        (case t of
           JStr s \<Rightarrow> Inr (JStr (take n s @ marker))
         | _ \<Rightarrow> Inl (TypeError (name @ ''.substring is not a function'')))
      else Inr t)"

definition toLowerCase :: "string \<Rightarrow> string" where
  "toLowerCase s =
     map (\<lambda>c. case map_of (zip ''ABCDEFGHIJKLMNOPQRSTUVWXYZ'' ''abcdefghijklmnopqrstuvwxyz'') c of
                 Some l \<Rightarrow> l | None \<Rightarrow> c) s"

definition toUpperCase :: "string \<Rightarrow> string" where
  "toUpperCase s =
     map (\<lambda>c. case map_of (zip ''abcdefghijklmnopqrstuvwxyz'' ''ABCDEFGHIJKLMNOPQRSTUVWXYZ'') c of
                 Some u \<Rightarrow> u | None \<Rightarrow> c) s"

definition toFixed2 :: "host \<Rightarrow> jsnum \<Rightarrow> string" where
  \<comment> \<open>\<^verbatim>\<open>x.toFixed(2)\<close>: the integer \<open>n\<close> with \<open>n / 100\<close> nearest to the value of the
      double, the larger one at a tie; from \<open>10\<^sup>2\<^sup>1\<close> on, the digits of \<^verbatim>\<open>String(x)\<close>\<close>
  "toFixed2 h x =
     (case x of
        NaN \<Rightarrow> ''NaN''
      | Inf s \<Rightarrow> (if s then ''Infinity'' else ''-Infinity'')
      | Fin r \<Rightarrow>
          (if 10 ^ 21 \<le> \<bar>r\<bar> then NumberToString h r
           else
             let n = nat \<lfloor>\<bar>r\<bar> * 100 + 1 / 2\<rfloor> in
             (if r < 0 then ''-'' else '''') @ show_nat (n div 100) @ ''.'' @
             show_nat (n mod 100 div 10) @ show_nat (n mod 10)))"

definition parseFloat_toFixed2 :: "jsnum \<Rightarrow> jsnum" where
  \<comment> \<open>\<^verbatim>\<open>parseFloat(x.toFixed(2))\<close>: the double nearest to the decimal that was printed\<close>
  "parseFloat_toFixed2 x =
     (case x of
        Fin r \<Rightarrow>
          (if 10 ^ 21 \<le> \<bar>r\<bar> then Fin r
           else
             let n = of_int \<lfloor>\<bar>r\<bar> * 100 + 1 / 2\<rfloor> / 100
             in round_double (if r < 0 then - n else n))
      | _ \<Rightarrow> x)"

definition Math_abs :: "jsnum \<Rightarrow> jsnum" where
  "Math_abs x = (case x of Fin r \<Rightarrow> Fin \<bar>r\<bar> | Inf s \<Rightarrow> Inf True | NaN \<Rightarrow> NaN)"

definition error_text :: "string \<Rightarrow> text_value result \<Rightarrow> tool_result" where
  \<comment> \<open>\<^verbatim>\<open>try { ... } catch (error) { return text(prefix + error.message) }\<close>\<close>
  "error_text prefix r =
     (case r of
        Inr t \<Rightarrow> text_result t
      | Inl error \<Rightarrow> text_result (Plain (prefix @ message error)))"

definition provider_error_message :: "js_error \<Rightarrow> jsval" where
  \<comment> \<open>\<^verbatim>\<open>error.response && error.response.data && error.response.data["Error Message"]\<close>\<close>
  "provider_error_message error =
     (case error of
        AxiosError m (Some d) \<Rightarrow> (if truthy d then lookup d ''Error Message'' else d)
      | _ \<Rightarrow> JUndefined)"

section \<open>search_symbol, company_profile, quote\<close>

text \<open>Arguments that only go into the request URL are left out of the handlers.\<close>

definition search_symbol :: "jsval result \<Rightarrow> tool_result" where
  "search_symbol response =
     error_text ''Error in search_symbol: ''
       (bind_result response (\<lambda>results.
        if \<not> truthy results \<or> lookup results ''length'' = num 0
        then Inr (Plain ''No symbols found matching your query.'')
        else
        bind_result
          (slice_map ''results'' results 5 (\<lambda>item.
             bind_result (get item ''symbol'') (\<lambda>s.
               Inr (JObj (pick item [''symbol'', ''name'', ''currency'', ''exchangeShortName'']))))) (\<lambda>summarizedResults.
        case results of
          JArr xs \<Rightarrow>
            if length xs > 5 then
              Inr (JSON_stringify (JObj
                [(''message'', JStr (''Displaying top 5 of '' @ show_nat (length xs) @
                    '' symbols fetched. Be more specific if your target is not listed.'')),
                 (''matches'', JArr summarizedResults)]))
            else Inr (JSON_stringify (JArr summarizedResults))
        | _ \<Rightarrow> Inr (JSON_stringify (JArr summarizedResults)))))"

definition summarizedProfile :: "host \<Rightarrow> jsval \<Rightarrow> jsval result" where
  "summarizedProfile h profileData =
     bind_result (truncated h ''profileData.description'' (lookup profileData ''description'') 300
                    ''... (truncated)'') (\<lambda>description.
       Inr (JObj
         (pick profileData [''symbol'', ''companyName'', ''price'', ''currency'', ''exchangeShortName'',
            ''industry'', ''sector'', ''website''] @
          [(''description'', description),
           (''ceo'', lookup profileData ''ceo''),
           (''marketCap'', lookup profileData ''mktCap'')] @
          pick profileData [''beta'', ''volAvg'', ''lastDiv'', ''range'', ''isActivelyTrading''])))"

definition company_profile :: "host \<Rightarrow> jsval result \<Rightarrow> tool_result" where
  "company_profile h response =
     error_text ''Error in company_profile: ''
       (bind_result response (\<lambda>data.
        let profileData = first_or_self data in
        if \<not> truthy profileData \<or> length (Object_keys profileData) = 0
        then Inr (Plain ''No company profile data found for the symbol.'')
        else bind_result (summarizedProfile h profileData) (\<lambda>p. Inr (JSON_stringify p))))"

definition summarizedQuote :: "jsval \<Rightarrow> jsval" where
  "summarizedQuote quoteData =
     JObj (pick quoteData [''symbol'', ''name'', ''price'', ''changesPercentage'', ''change'',
       ''dayLow'', ''dayHigh'', ''yearHigh'', ''yearLow'', ''marketCap'', ''priceAvg50'',
       ''priceAvg200'', ''volume'', ''avgVolume'', ''open'', ''previousClose'', ''eps'', ''pe'',
       ''timestamp''])"

definition quote :: "jsval result \<Rightarrow> tool_result" where
  "quote response =
     error_text ''Error in quote: ''
       (bind_result response (\<lambda>data.
        let quoteData = first_or_self data in
        if \<not> truthy quoteData \<or> length (Object_keys quoteData) = 0
        then Inr (Plain ''No quote data found for the symbol.'')
        else Inr (JSON_stringify (summarizedQuote quoteData))))"

section \<open>technical_indicator\<close>

definition RECENT_VALUES_COUNT :: nat where
  "RECENT_VALUES_COUNT = 3"

definition indicator_value :: "string \<Rightarrow> jsval \<Rightarrow> jsval result" where
  \<comment> \<open>\<^verbatim>\<open>(val) => ({ date: val.date, [lc]: val[lc] || val[uc] || val.indicatorValue || val.value })\<close>\<close>
  "indicator_value indicator_type val =
     bind_result (get val ''date'') (\<lambda>d.
       Inr (JObj (set_prop [(''date'', d)] (toLowerCase indicator_type)
         (or_else (or_else (or_else (lookup val (toLowerCase indicator_type))
                                    (lookup val (toUpperCase indicator_type)))
                           (lookup val ''indicatorValue''))
                  (lookup val ''value'')))))"

definition technical_indicator ::
  "string \<Rightarrow> string \<Rightarrow> string \<Rightarrow> nat \<Rightarrow> jsval result \<Rightarrow> tool_result" where
  "technical_indicator symbol interval indicator_type period response =
     error_text ''Error in technical_indicator: ''
       (bind_result response (\<lambda>indicatorData.
        if \<not> truthy indicatorData \<or> (isArray indicatorData \<and> lookup indicatorData ''length'' = num 0)
        then Inr (Plain (''No '' @ indicator_type @ '' data found for '' @ symbol @
               '' with period '' @ show_nat period @ '' on '' @ interval @ '' interval.''))
        else
        case indicatorData of
          JArr xs \<Rightarrow>
            bind_result (mapM (indicator_value indicator_type) (take RECENT_VALUES_COUNT xs)) (\<lambda>recentValues.
            if length xs \<le> RECENT_VALUES_COUNT then Inr (JSON_stringify (JArr recentValues))
            else
              Inr (JSON_stringify (JObj
                [(''message'', JStr (''Showing '' @ show_nat (length recentValues) @ '' most recent '' @
                    indicator_type @ '' values of '' @ show_nat (length xs) @
                    '' fetched. Full series available via API.'')),
                 (''indicator'', JStr indicator_type),
                 (''values'', JArr recentValues)])))
        | _ \<Rightarrow> Inr (JSON_stringify indicatorData)))"

section \<open>analyst_estimates\<close>

definition analyst_estimates :: "host \<Rightarrow> string \<Rightarrow> jsval result \<Rightarrow> jsval result \<Rightarrow> tool_result" where
  \<comment> \<open>the two requests are awaited one after the other inside one \<^verbatim>\<open>try\<close>\<close>
  "analyst_estimates h symbol estimatesResponse priceTargetResponse =
     error_text ''Error in analyst_estimates: ''
       (bind_result estimatesResponse (\<lambda>estimatesData.
        bind_result priceTargetResponse (\<lambda>priceTargetResponse_data.
        let priceTargetData = first_or_self priceTargetResponse_data in
        if (\<not> truthy estimatesData \<or> lookup estimatesData ''length'' = num 0) \<and> \<not> truthy priceTargetData
        then Inr (Plain ''No analyst estimates or price target data found for the symbol.'')
        else
        let summary0 =
              [(''symbol'', JStr symbol),
               (''sourceMessage'', JStr ''Summarized analyst estimates. More historical/detailed data might be available via direct API.'')];
            summary1 =
              (if truthy priceTargetData then
                 summary0 @ [(''priceTargetSummary'', JObj (pick priceTargetData
                   [''lastUpdated'', ''targetHigh'', ''targetLow'', ''targetConsensus'',
                    ''targetMedian'', ''numberOfAnalysts'']))]
               else summary0)
        in
        if truthy estimatesData \<and> js_gt (ToNumber h (lookup estimatesData ''length'')) (Fin 0) then
          bind_result
            (slice_map ''estimatesData'' estimatesData 2 (\<lambda>est.
               bind_result (get est ''date'') (\<lambda>d.
                 Inr (JObj (pick est [''date'', ''estimatedRevenueAvg'', ''estimatedEpsAvg'']))))) (\<lambda>recentEstimates.
            Inr (JSON_stringify (JObj (summary1 @
              [(''recentEstimates'', JArr recentEstimates),
               (''recommendationInfo'', JStr ''Detailed buy/hold/sell counts not directly available in this summary. FMP has separate recommendation endpoints.'')]))))
        else Inr (JSON_stringify (JObj summary1)))))"

section \<open>stock_news\<close>

definition ARTICLES_FOR_SUMMARY :: nat where
  "ARTICLES_FOR_SUMMARY = 3"

definition ARTICLES_FOR_FULL_DETAIL :: nat where
  "ARTICLES_FOR_FULL_DETAIL = 10"

definition summarizedArticle :: "host \<Rightarrow> jsval \<Rightarrow> jsval result" where
  "summarizedArticle h article =
     bind_result (get article ''title'') (\<lambda>title.
     bind_result (truncated h ''article.text'' (lookup article ''text'') 200 ''...'') (\<lambda>snippet.
       Inr (JObj (pick article [''title'', ''publishedDate'', ''site'', ''url''] @
                  [(''snippet'', snippet)]))))"

definition stock_news :: "host \<Rightarrow> detail \<Rightarrow> jsval result \<Rightarrow> tool_result" where
  "stock_news h detail response =
     error_text ''Error fetching stock_news: ''
       (bind_result response (\<lambda>articles.
        if \<not> truthy articles \<or> lookup articles ''length'' = num 0
        then Inr (Plain ''No news found for the given symbol(s).'')
        else
        case articles of
          JArr xs \<Rightarrow>
            let articlesToShowCount =
                  (if detail = full then min (length xs) ARTICLES_FOR_FULL_DETAIL
                   else min (length xs) ARTICLES_FOR_SUMMARY)
            in
            bind_result (mapM (summarizedArticle h) (take articlesToShowCount xs)) (\<lambda>summarizedArticles.
            let messagePrefix =
                  (if detail = full then
                     ''Displaying '' @ show_nat (length summarizedArticles) @ '' of '' @
                     show_nat (length xs) @ '' fetched articles (full detail requested, capped at '' @
                     show_nat ARTICLES_FOR_FULL_DETAIL @ ''):''
                   else
                     ''Displaying summaries for the '' @ show_nat (length summarizedArticles) @
                     '' most recent of '' @ show_nat (length xs) @ '' articles fetched. Request '' @
                     [CHR 0x27] @ ''full'' @ [CHR 0x27] @ '' detail for more.'')
            in
            if length xs > length summarizedArticles
               \<or> (detail = full \<and> length xs \<ge> articlesToShowCount)
            then Inr (JSON_stringify (JObj
                   [(''message'', JStr messagePrefix), (''articles'', JArr summarizedArticles)]))
            else Inr (JSON_stringify (JArr summarizedArticles)))
        | JStr s \<Rightarrow> Inl (TypeError ''articles.slice(...).map is not a function'')
        | _ \<Rightarrow> Inl (TypeError ''articles.slice is not a function'')))"

section \<open>earnings_calendar\<close>

definition MAX_RESULTS_TO_LLM :: nat where
  "MAX_RESULTS_TO_LLM = 10"

definition earnings_calendar :: "host \<Rightarrow> string option \<Rightarrow> jsval result \<Rightarrow> tool_result" where
  \<comment> \<open>\<open>symbol\<close> is optional; \<^verbatim>\<open>!symbol\<close> holds when it is absent or empty\<close>
  "earnings_calendar h symbol response =
     error_text ''Error in earnings_calendar: ''
       (bind_result response (\<lambda>earningsData.
        if \<not> truthy earningsData \<or> lookup earningsData ''length'' = num 0
        then Inr (Plain ''No earnings calendar data found for the given parameters.'')
        else if (symbol = None \<or> symbol = Some '''')
                \<and> js_gt (ToNumber h (lookup earningsData ''length'')) (Fin (of_nat MAX_RESULTS_TO_LLM))
        then
          bind_result
            (slice_map ''earningsData'' earningsData MAX_RESULTS_TO_LLM (\<lambda>item.
               bind_result (get item ''date'') (\<lambda>d.
                 Inr (JObj (pick item [''date'', ''symbol'', ''epsEstimated'', ''time'']))))) (\<lambda>summarizedData.
            Inr (JSON_stringify (JObj
              [(''message'', JStr (''Displaying first '' @ show_nat MAX_RESULTS_TO_LLM @ '' of '' @
                  ToString h (lookup earningsData ''length'') @
                  '' earnings events. Specify a symbol or a tighter date range for more targeted results.'')),
               (''earningsEvents'', JArr summarizedData)])))
        else
          bind_result
            (slice_map ''earningsData'' earningsData MAX_RESULTS_TO_LLM (\<lambda>item.
               bind_result (get item ''date'') (\<lambda>d.
                 Inr (JObj (pick item [''date'', ''symbol'', ''eps'', ''epsEstimated'', ''revenue'',
                   ''revenueEstimated'', ''time'', ''fiscalDateEnding'']))))) (\<lambda>relevantData.
            Inr (JSON_stringify (JArr relevantData)))))"

section \<open>financial_ratios_ttm, key_metrics_ttm\<close>

definition keyRatioNames :: "string list" where
  "keyRatioNames =
     [''peRatioTTM'', ''priceToSalesRatioTTM'', ''priceToBookRatioTTM'',
      ''priceEarningsToGrowthRatioTTM'', ''currentRatioTTM'', ''quickRatioTTM'',
      ''debtToEquityTTM'', ''debtToAssetsTTM'', ''returnOnEquityTTM'', ''returnOnAssetsTTM'',
      ''grossProfitMarginTTM'', ''operatingProfitMarginTTM'', ''netProfitMarginTTM'',
      ''dividendYieldTTM'', ''payoutRatioTTM'', ''assetTurnoverTTM'', ''inventoryTurnoverTTM'']"

definition keyMetricNames :: "string list" where
  "keyMetricNames =
     [''revenuePerShareTTM'', ''netIncomePerShareTTM'', ''operatingCashFlowPerShareTTM'',
      ''freeCashFlowPerShareTTM'', ''marketCapTTM'', ''enterpriseValueTTM'', ''peRatioTTM'',
      ''priceToSalesRatioTTM'', ''pocfratioTTM'', ''pfcfRatioTTM'', ''pbRatioTTM'', ''ptbRatioTTM'',
      ''evToSalesTTM'', ''enterpriseValueOverEBITDATTM'', ''debtToEquityTTM'', ''debtToAssetsTTM'',
      ''netDebtToEBITDATTM'', ''currentRatioTTM'', ''dividendYieldTTM'', ''payoutRatioTTM'',
      ''roeTTM'', ''roicTTM'']"

definition call_hasOwnProperty :: "jsval \<Rightarrow> string \<Rightarrow> bool result" where
  \<comment> \<open>\<^verbatim>\<open>v.hasOwnProperty(k)\<close> for a truthy \<open>v\<close>: an own property of that name hides the method\<close>
  "call_hasOwnProperty v k =
     (if hasOwnProperty v ''hasOwnProperty'' then Inl (TypeError ''hasOwnProperty is not a function'')
      else Inr (hasOwnProperty v k))"

fun curate :: "jsval \<Rightarrow> string list \<Rightarrow> (string \<times> jsval) list \<Rightarrow> (string \<times> jsval) list result" where
  \<comment> \<open>the loop \<^verbatim>\<open>for (const key of names) if (all.hasOwnProperty(key) && all[key] !== null && all[key] !== undefined) out[key] = all[key]\<close>\<close>
  "curate v [] out = Inr out"
| "curate v (key # keys) out =
     (case call_hasOwnProperty v key of
        Inl e \<Rightarrow> Inl e
      | Inr own \<Rightarrow>
          (if own \<and> lookup v key \<noteq> JNull \<and> lookup v key \<noteq> JUndefined
           then curate v keys (set_prop out key (lookup v key))
           else curate v keys out))"

definition financial_ratios_ttm :: "string \<Rightarrow> jsval result \<Rightarrow> tool_result" where
  "financial_ratios_ttm symbol response =
     error_text ''Error in financial_ratios_ttm: ''
       (bind_result response (\<lambda>data.
        let allRatios = first_or_self data in
        if \<not> truthy allRatios \<or> length (Object_keys allRatios) = 0
        then Inr (Plain ''No TTM financial ratios found for the symbol.'')
        else
        bind_result (curate allRatios keyRatioNames []) (\<lambda>ratios.
          Inr (JSON_stringify (JObj
            [(''symbol'', or_else (lookup allRatios ''symbol'') (JStr symbol)),
             (''date'', lookup allRatios ''date''),
             (''sourceMessage'', JStr (''Showing a curated list of TTM financial ratios. '' @
                show_nat (length (Object_keys allRatios)) @ '' total ratios fetched.'')),
             (''ratios'', JObj
                (if truthy (lookup allRatios ''priceFairValueTTM'')
                 then set_prop ratios ''priceFairValueTTM'' (lookup allRatios ''priceFairValueTTM'')
                 else ratios))])))))"

definition key_metrics_ttm :: "string \<Rightarrow> jsval result \<Rightarrow> tool_result" where
  "key_metrics_ttm symbol response =
     error_text ''Error in key_metrics_ttm: ''
       (bind_result response (\<lambda>data.
        let allMetrics = first_or_self data in
        if \<not> truthy allMetrics \<or> length (Object_keys allMetrics) = 0
        then Inr (Plain ''No TTM key metrics found for the symbol.'')
        else
        bind_result (curate allMetrics keyMetricNames []) (\<lambda>metrics.
          Inr (JSON_stringify (JObj
            [(''symbol'', or_else (lookup allMetrics ''symbol'') (JStr symbol)),
             (''date'', lookup allMetrics ''date''),
             (''sourceMessage'', JStr (''Showing a curated list of TTM key metrics. '' @
                show_nat (length (Object_keys allMetrics)) @ '' total metrics fetched.'')),
             (''metrics'', JObj
                (if truthy (lookup allMetrics ''bookValuePerShareTTM'')
                 then set_prop metrics ''bookValuePerShareTTM'' (lookup allMetrics ''bookValuePerShareTTM'')
                 else metrics))])))))"

section \<open>dcf_valuation\<close>

definition potentialUpsidePercent :: "host \<Rightarrow> jsval \<Rightarrow> jsval \<Rightarrow> jsval" where
  \<comment> \<open>\<^verbatim>\<open>null\<close>, or the number assigned under \<^verbatim>\<open>if (stockPrice && dcfValue && stockPrice > 0)\<close>\<close>
  "potentialUpsidePercent h stockPrice dcfValue =
     (if truthy stockPrice \<and> truthy dcfValue \<and> js_gt (ToNumber h stockPrice) (Fin 0) then
        JNum (js_mul
          (js_div (js_sub (ToNumber h dcfValue) (ToNumber h stockPrice)) (ToNumber h stockPrice))
          (Fin 100))
      else JNull)"

definition summarizedDcf :: "host \<Rightarrow> string \<Rightarrow> jsval \<Rightarrow> jsval" where
  "summarizedDcf h symbol dcfData =
     (let stockPrice = or_else (lookup dcfData ''Stock Price'') (lookup dcfData ''stockPrice'');
          dcfValue = lookup dcfData ''dcf'';
          upside = potentialUpsidePercent h stockPrice dcfValue
      in JObj
        [(''symbol'', or_else (lookup dcfData ''symbol'') (JStr symbol)),
         (''date'', lookup dcfData ''date''),
         (''stockPrice'', stockPrice),
         (''dcfValue'', dcfValue),
         (''currency'', JStr ''USD''),
         (''potentialUpsidePercent'',
            (case upside of
               JNum n \<Rightarrow> (if truthy upside then JNum (parseFloat_toFixed2 n) else JNull)
             | _ \<Rightarrow> JNull)),
         (''message'',
            (case upside of
               JNum n \<Rightarrow>
                 (if js_gt n (Fin 0)
                  then JStr (''DCF suggests a potential upside of '' @ toFixed2 h n @ ''%.'')
                  else JStr (''DCF suggests a potential downside of '' @ toFixed2 h (Math_abs n) @ ''%.''))
             | _ \<Rightarrow> JStr ''Could not calculate potential upside.''))])"

definition dcf_valuation :: "host \<Rightarrow> string \<Rightarrow> jsval result \<Rightarrow> tool_result" where
  "dcf_valuation h symbol response =
     (case bind_result response (\<lambda>data.
             let dcfData = first_or_self data in
             if \<not> truthy dcfData \<or> length (Object_keys dcfData) = 0 \<or> \<not> truthy (lookup dcfData ''dcf'')
             then Inr (Plain (''No DCF valuation data found for '' @ symbol @
                    ''. This might be due to data availability or the company type.''))
             else Inr (JSON_stringify (summarizedDcf h symbol dcfData))) of
        Inr t \<Rightarrow> text_result t
      | Inl error \<Rightarrow>
          (if truthy (provider_error_message error) then
             text_result (Plain (''Error fetching DCF for '' @ symbol @ '': '' @
               ToString h (provider_error_message error)))
           else
             text_result (Plain (''Error in dcf_valuation for '' @ symbol @ '': '' @ message error @
               ''. This could be due to data unavailability for the symbol (e.g., non-US stock, financial institution, or new IPO).''))))"

section \<open>dividend_calendar\<close>

definition spread :: "string \<Rightarrow> jsval \<Rightarrow> jsval list result" where
  \<comment> \<open>\<^verbatim>\<open>[...v]\<close> for a truthy \<open>v\<close>\<close>
  "spread name v =
     (case v of
        JArr xs \<Rightarrow> Inr xs
      | JStr s \<Rightarrow> Inr (map (\<lambda>c. JStr [c]) s)
      | _ \<Rightarrow> Inl (TypeError (name @ '' is not iterable'')))"

definition dividend_record :: "jsval \<Rightarrow> jsval result" where
  "dividend_record dv =
     bind_result (get dv ''date'') (\<lambda>d.
       Inr (JObj (pick dv [''date'', ''label'', ''dividend'', ''adjDividend'', ''recordDate'',
         ''paymentDate'', ''declarationDate''])))"

definition dividend_body :: "host \<Rightarrow> string \<Rightarrow> nat \<Rightarrow> jsval \<Rightarrow> text_value result" where
  "dividend_body h symbol limit data =
     bind_result (get data ''historical'') (\<lambda>dividends.
     if \<not> truthy dividends \<or> lookup dividends ''length'' = num 0
     then Inr (Plain (''No dividend data found for '' @ symbol @
            ''. The company may not pay dividends or data may be unavailable.''))
     else
     bind_result (spread ''dividends'' dividends) (\<lambda>copy.
     bind_result (Array_sort h (newest_first h) copy) (\<lambda>sortedDividends.
     bind_result (mapM dividend_record (take limit sortedDividends)) (\<lambda>recentDividends.
       if js_gt (ToNumber h (lookup dividends ''length'')) (Fin (of_nat (length recentDividends)))
       then Inr (JSON_stringify (JObj
              [(''message'', JStr (''Displaying '' @ show_nat (length recentDividends) @
                  '' most recent of '' @ ToString h (lookup dividends ''length'') @
                  '' dividend records fetched for '' @ symbol @ ''.'')),
               (''dividends'', JArr recentDividends)]))
       else Inr (JSON_stringify (JObj
              [(''message'', JStr (''Found '' @ ToString h (lookup dividends ''length'') @
                  '' dividend records for '' @ symbol @ ''.'')),
               (''dividends'', JArr recentDividends)]))))))"

definition dividend_calendar :: "host \<Rightarrow> string \<Rightarrow> nat \<Rightarrow> jsval result \<Rightarrow> tool_result" where
  \<comment> \<open>\<open>limit\<close> is a positive integer, 10 when the caller gives none\<close>
  "dividend_calendar h symbol limit response =
     (case bind_result response (dividend_body h symbol limit) of
        Inr t \<Rightarrow> text_result t
      | Inl error \<Rightarrow>
          (if truthy (provider_error_message error) then
             text_result (Plain (''Error fetching dividend data for '' @ symbol @ '': '' @
               ToString h (provider_error_message error)))
           else
             text_result (Plain (''Error fetching dividend data for '' @ symbol @ '': '' @ message error))))"

section \<open>Shape of a tool result\<close>

definition text_is_string :: "text_value \<Rightarrow> bool" where
  \<comment> \<open>\<^verbatim>\<open>JSON.stringify(v)\<close> is a string unless \<open>v\<close> is undefined\<close>
  "text_is_string t = (case t of Plain s \<Rightarrow> True | JSON_stringify v \<Rightarrow> v \<noteq> JUndefined)"

definition one_text_item :: "tool_result \<Rightarrow> bool" where
  \<comment> \<open>the content is exactly one item, of type text, whose text is a string\<close>
  "one_text_item r =
     (case r of
        [c] \<Rightarrow> item_type c = ''text'' \<and> text_is_string (item_text c)
      | _ \<Rightarrow> False)"

definition serialized :: "tool_result \<Rightarrow> jsval list" where
  \<comment> \<open>the JSON values that the texts of the content items denote (a plain text as a string)\<close>
  "serialized r = map (\<lambda>c. case item_text c of JSON_stringify v \<Rightarrow> json v | Plain s \<Rightarrow> JStr s) r"

section \<open>Records with a date\<close>

definition time_of :: "host \<Rightarrow> jsval \<Rightarrow> jsnum" where
  \<comment> \<open>the time value that the comparators compute for a record: \<^verbatim>\<open>new Date(p.date)\<close>\<close>
  "time_of h p = new_Date h (lookup p ''date'')"

definition millis :: "host \<Rightarrow> jsval \<Rightarrow> rat" where
  \<comment> \<open>the time value of a record whose date is valid\<close>
  "millis h p = (case time_of h p of Fin t \<Rightarrow> t | _ \<Rightarrow> 0)"

definition dated :: "host \<Rightarrow> jsval \<Rightarrow> bool" where
  \<comment> \<open>a record (an object) whose date is valid\<close>
  "dated h p = (isObject p \<and> (case time_of h p of Fin t \<Rightarrow> True | _ \<Rightarrow> False))"

section \<open>Example data\<close>

definition example_host :: host where
  "example_host =
     \<lparr>Date_parse = (\<lambda>s. case map_of
          [(''2024-01-01'', 1704067200000), (''2024-01-02'', 1704153600000),
           (''2024-01-03'', 1704240000000), (''2024-01-04'', 1704326400000)] s of
          Some t \<Rightarrow> Fin t | None \<Rightarrow> NaN),
      StringToNumber = (\<lambda>s. NaN),
      NumberToString = (\<lambda>r. ''?''),
      Inconsistent_sort = (\<lambda>cmp xs. rev [0..<length xs])\<rparr>"

definition point :: "string \<Rightarrow> rat \<Rightarrow> jsval" where
  "point d c =
     JObj [(''date'', JStr d), (''open'', JNum (Fin c)), (''high'', JNum (Fin (c + 1))),
           (''low'', JNum (Fin c)), (''close'', JNum (Fin c)), (''volume'', JNum (Fin 1000))]"

definition daily_point :: "string \<Rightarrow> rat \<Rightarrow> jsval" where
  \<comment> \<open>a point as the daily endpoint returns it, with more keys than the six that are kept\<close>
  "daily_point d c =
     JObj [(''date'', JStr d), (''open'', JNum (Fin c)), (''high'', JNum (Fin (c + 1))),
           (''low'', JNum (Fin c)), (''close'', JNum (Fin c)), (''adjClose'', JNum (Fin c)),
           (''volume'', JNum (Fin 1000)), (''unadjustedVolume'', JNum (Fin 1000)),
           (''label'', JStr d)]"

definition sma_value :: "string \<Rightarrow> rat \<Rightarrow> jsval" where
  "sma_value d v =
     JObj [(''date'', JStr d), (''open'', JNum (Fin v)), (''close'', JNum (Fin v)),
           (''sma'', JNum (Fin v))]"

definition article :: "string \<Rightarrow> string \<Rightarrow> jsval" where
  "article title published =
     JObj [(''symbol'', JStr ''AAPL''), (''publishedDate'', JStr published), (''title'', JStr title),
           (''site'', JStr ''example.com''), (''text'', JStr ''Short text.''),
           (''url'', JStr ''https://example.com/a'')]"

definition dividend_entry :: "string \<Rightarrow> rat \<Rightarrow> jsval" where
  "dividend_entry d amount =
     JObj [(''date'', JStr d), (''label'', JStr d), (''adjDividend'', JNum (Fin amount)),
           (''dividend'', JNum (Fin amount))]"

definition example_series :: "jsval list" where
  \<comment> \<open>61 daily points, newest first: the close falls from 100 to 0\<close>
  "example_series =
     point ''2024-01-03'' 0 # replicate 59 (point ''2024-01-02'' 50) @ [point ''2024-01-01'' 100]"

definition rising_series :: "jsval list" where
  \<comment> \<open>61 daily points, newest first: the close rises from 100 to 150\<close>
  "rising_series =
     point ''2024-01-03'' 150 # replicate 59 (point ''2024-01-02'' 120) @ [point ''2024-01-01'' 100]"


section \<open>Basic facts\<close>

lemma get_object: "isObject p \<Longrightarrow> get p k = Inr (lookup p k)"
  by (cases p) (simp_all add: isObject_def get_def)

lemma bind_Inr [simp]: "bind_result (Inr v) f = f v"
  by (simp add: bind_result_def)

lemma bind_Inl [simp]: "bind_result (Inl e) f = Inl e"
  by (simp add: bind_result_def)

lemma mapM_length: "mapM f xs = Inr ys \<Longrightarrow> length ys = length xs"
  by (induction xs arbitrary: ys) (auto split: sum.splits)

lemma mapM_total:
  "\<forall>x\<in>set xs. \<exists>y. f x = Inr y \<Longrightarrow> \<exists>ys. mapM f xs = Inr ys"
  by (induction xs) (auto split: sum.splits)

lemma mapM_pure: "\<forall>x\<in>set xs. f x = Inr (g x) \<Longrightarrow> mapM f xs = Inr (map g xs)"
  by (induction xs) auto

lemma ohlcv_object: "isObject p \<Longrightarrow> \<exists>d. ohlcv p = Inr d"
  by (simp add: ohlcv_def get_object)

lemma filter_defined_objects:
  "\<forall>p\<in>set xs. isObject p \<Longrightarrow>
     filter (\<lambda>v. v \<noteq> JUndefined) xs = xs \<and> filter (\<lambda>v. v = JUndefined) xs = []"
  by (induction xs) (auto simp: isObject_def)

lemma get_not_nullish: "\<not> nullish v \<Longrightarrow> get v k = Inr (lookup v k)"
  by (simp add: get_def nullish_def)

lemma ToNumber_num [simp]: "ToNumber h (num n) = Fin (of_nat n)"
  by (simp add: ToNumber_def num_def)


lemma ToString_num [simp]: "ToString h (num n) = show_nat n"
  by (simp add: num_def Number_toString_def)

lemma slice_map_array [simp]: "slice_map name (JArr xs) n f = mapM f (take n xs)"
  by (simp add: slice_map_def)

lemma truncated_string:
  "truncated h name (JStr s) n marker =
     Inr (JStr (if n < length s then take n s @ marker else s))"
  by (auto simp: truncated_def)

lemma truncated_null [simp]: "truncated h name JNull n marker = Inr JNull"
  by (simp add: truncated_def)

lemma truncated_undefined [simp]: "truncated h name JUndefined n marker = Inr JUndefined"
  by (simp add: truncated_def)

lemma summarizedArticle_total:
  assumes "\<not> nullish a"
    and "lookup a ''text'' = JNull \<or> lookup a ''text'' = JUndefined \<or> (\<exists>s. lookup a ''text'' = JStr s)"
  shows "\<exists>d. summarizedArticle h a = Inr d"
  using assms by (auto simp: summarizedArticle_def get_not_nullish truncated_string)

lemma floor_rat_numeral:
  "\<lfloor>numeral a / numeral b :: rat\<rfloor> = numeral a div numeral b"
  using floor_divide_of_int_eq [of "numeral a" "numeral b", where ?'a = rat] by simp

lemma num_eq_iff [simp]: "num m = num n \<longleftrightarrow> m = n"
  by (simp add: num_def)

lemma insert_sorted_mset: "insert_sorted cmp x ys = Inr zs \<Longrightarrow> mset zs = add_mset x (mset ys)"
  by (induction ys arbitrary: zs) (auto split: sum.splits if_splits)

lemma sort_defined_mset: "sort_defined cmp xs = Inr ys \<Longrightarrow> mset ys = mset xs"
  by (induction xs arbitrary: ys) (auto split: sum.splits dest: insert_sorted_mset)

lemma positions_mset:
  assumes "sort order = [0..<length xs]"
  shows "mset (map (\<lambda>i. xs ! i) order) = mset xs"
proof -
  have "mset order = mset [0..<length xs]"
    using assms mset_sort [of "\<lambda>x. x" order] by simp
  then have "image_mset (\<lambda>i. xs ! i) (mset order) = image_mset (\<lambda>i. xs ! i) (mset [0..<length xs])"
    by simp
  then have "mset (map (\<lambda>i. xs ! i) order) = mset (map (\<lambda>i. xs ! i) [0..<length xs])"
    by simp
  then show ?thesis by (simp add: map_nth)
qed

lemma Array_sort_mset:
  assumes "Array_sort h cmp xs = Inr ys"
  shows "mset ys = mset xs"
proof -
  let ?defined = "filter (\<lambda>v. v \<noteq> JUndefined) xs"
  let ?undefineds = "filter (\<lambda>v. v = JUndefined) xs"
  from assms obtain zs where zs: "sort_defined cmp ?defined = Inr zs"
    by (auto simp: Array_sort_def Let_def split: sum.splits)
  then have z: "mset zs = mset ?defined" by (rule sort_defined_mset)
  have parts: "mset ?defined + mset ?undefineds = mset xs"
    by (induction xs) auto
  from assms zs have "ys = zs @ ?undefineds
      \<or> (sort (Inconsistent_sort h cmp ?defined) = [0..<length ?defined]
         \<and> ys = map (\<lambda>i. ?defined ! i) (Inconsistent_sort h cmp ?defined) @ ?undefineds)"
    by (auto simp: Array_sort_def Let_def split: if_splits)
  then show ?thesis
    using z parts positions_mset [of "Inconsistent_sort h cmp ?defined" ?defined] by auto
qed

lemma Array_sort_objects:
  assumes "\<forall>p\<in>set xs. isObject p"
  shows "\<exists>ys. Array_sort h (newest_first h) xs = Inr ys"
proof -
  have "\<And>x ys. isObject x \<Longrightarrow> \<forall>y\<in>set ys. isObject y \<Longrightarrow> \<exists>zs. insert_sorted (newest_first h) x ys = Inr zs"
  proof -
    fix x :: jsval and ys
    show "isObject x \<Longrightarrow> \<forall>y\<in>set ys. isObject y \<Longrightarrow> \<exists>zs. insert_sorted (newest_first h) x ys = Inr zs"
      by (induction ys) (auto simp: newest_first_def get_object split: sum.splits)
  qed
  note ins = this
  have "\<forall>p\<in>set xs. isObject p \<Longrightarrow>
      \<exists>ys. sort_defined (newest_first h) xs = Inr ys \<and> (\<forall>y\<in>set ys. isObject y)"
  proof (induction xs)
    case Nil
    then show ?case by simp
  next
    case (Cons x xs)
    then obtain ys where ys: "sort_defined (newest_first h) xs = Inr ys" "\<forall>y\<in>set ys. isObject y"
      by auto
    from Cons.prems ys(2) ins [of x ys] obtain zs where zs: "insert_sorted (newest_first h) x ys = Inr zs"
      by auto
    from insert_sorted_mset [OF zs] have "set zs = insert x (set ys)"
      by (metis set_mset_add_mset_insert set_mset_mset)
    with ys zs Cons.prems show ?case by auto
  qed
  with assms obtain ys where "sort_defined (newest_first h) xs = Inr ys" by blast
  with filter_defined_objects [OF assms] show ?thesis
    by (simp add: Array_sort_def Let_def)
qed

section \<open>Rounding to a double\<close>

lemma lower_bound: "2 powi lower e a \<le> a \<or> lower e a \<le> - 1022"
proof (induction e a rule: lower.induct)
  case (1 e a)
  show ?case
  proof (cases "- 1022 < e \<and> a < 2 powi e")
    case True
    then have "lower e a = lower (e - 1) a" by (subst lower.simps) simp
    with 1 True show ?thesis by simp
  next
    case False
    then have "lower e a = e" by (subst lower.simps) auto
    with False show ?thesis by auto
  qed
qed

lemma unit_le:
  assumes "1 \<le> a"
  shows "2 powi (exponent a - 52) \<le> a"
proof -
  let ?e = "exponent a"
  have "(2::rat) powi (?e - 52) \<le> 2 powi ?e"
    by (rule power_int_increasing) auto
  moreover have "(2::rat) powi ?e \<le> a"
  proof (cases "2 powi ?e \<le> a")
    case True
    then show ?thesis .
  next
    case False
    with lower_bound [of "raise 0 a" a] have "?e \<le> - 1022" by (simp add: exponent_def)
    then have "(2::rat) powi ?e \<le> 2 powi 0"
      by (intro power_int_increasing) auto
    with assms show ?thesis by simp
  qed
  ultimately show ?thesis by simp
qed

lemma round_half_even_ge: "\<lfloor>x\<rfloor> \<le> round_half_even x"
  by (simp add: round_half_even_def Let_def)

lemma round_double_positive:
  assumes "1 \<le> r"
  shows "js_gt (round_double r) (Fin 0)"
proof -
  let ?u = "(2::rat) powi (exponent \<bar>r\<bar> - 52)"
  have u: "0 < ?u" by simp
  from assms have "?u \<le> \<bar>r\<bar>" by (intro unit_le) simp
  with u have "1 \<le> \<bar>r\<bar> / ?u" by (simp add: le_divide_eq)
  then have "1 \<le> \<lfloor>\<bar>r\<bar> / ?u\<rfloor>" by simp
  with round_half_even_ge [of "\<bar>r\<bar> / ?u"] have "1 \<le> round_half_even (\<bar>r\<bar> / ?u)" by linarith
  then have "0 < (of_int (round_half_even (\<bar>r\<bar> / ?u)) :: rat)" by simp
  with u have "0 < of_int (round_half_even (\<bar>r\<bar> / ?u)) * ?u" by simp
  with assms show ?thesis by (simp add: round_double_def Let_def)
qed

lemma round_double_not_positive:
  assumes "r \<le> 0"
  shows "\<not> js_gt (round_double r) (Fin 0)"
proof (cases "r = 0")
  case True
  then show ?thesis by (simp add: round_double_def)
next
  case False
  let ?u = "(2::rat) powi (exponent \<bar>r\<bar> - 52)"
  have "0 \<le> \<bar>r\<bar> / ?u" by simp
  then have "0 \<le> \<lfloor>\<bar>r\<bar> / ?u\<rfloor>" by simp
  with round_half_even_ge [of "\<bar>r\<bar> / ?u"] have "0 \<le> round_half_even (\<bar>r\<bar> / ?u)" by linarith
  then have "0 \<le> (of_int (round_half_even (\<bar>r\<bar> / ?u)) :: rat) * ?u" by simp
  with assms False show ?thesis by (simp add: round_double_def Let_def)
qed

lemma round_double_negative:
  assumes "r \<le> - 1"
  shows "js_gt (Fin 0) (round_double r)"
proof -
  let ?u = "(2::rat) powi (exponent \<bar>r\<bar> - 52)"
  have u: "0 < ?u" by simp
  from assms have "?u \<le> \<bar>r\<bar>" by (intro unit_le) simp
  with u have "1 \<le> \<bar>r\<bar> / ?u" by (simp add: le_divide_eq)
  then have "1 \<le> \<lfloor>\<bar>r\<bar> / ?u\<rfloor>" by simp
  with round_half_even_ge [of "\<bar>r\<bar> / ?u"] have "1 \<le> round_half_even (\<bar>r\<bar> / ?u)" by linarith
  then have "0 < (of_int (round_half_even (\<bar>r\<bar> / ?u)) :: rat)" by simp
  with u have "0 < of_int (round_half_even (\<bar>r\<bar> / ?u)) * ?u" by simp
  with assms show ?thesis by (simp add: round_double_def Let_def)
qed

lemma round_double_not_negative:
  assumes "0 \<le> r"
  shows "\<not> js_gt (Fin 0) (round_double r)"
proof (cases "r = 0")
  case True
  then show ?thesis by (simp add: round_double_def)
next
  case False
  let ?u = "(2::rat) powi (exponent \<bar>r\<bar> - 52)"
  have "0 \<le> \<bar>r\<bar> / ?u" by simp
  then have "0 \<le> \<lfloor>\<bar>r\<bar> / ?u\<rfloor>" by simp
  with round_half_even_ge [of "\<bar>r\<bar> / ?u"] have "0 \<le> round_half_even (\<bar>r\<bar> / ?u)" by linarith
  then have "0 \<le> (of_int (round_half_even (\<bar>r\<bar> / ?u)) :: rat) * ?u" by simp
  with assms False show ?thesis by (simp add: round_double_def Let_def)
qed

lemma round_double_sign:
  "js_gt (round_double (of_int k)) (Fin 0) = (0 < k)"
  "js_gt (Fin 0) (round_double (of_int k)) = (k < 0)"
  "(round_double (of_int k) = Fin 0) = (k = 0)"
proof -
  show pos: "js_gt (round_double (of_int k)) (Fin 0) = (0 < k)"
  proof (cases "0 < k")
    case True
    then have "1 \<le> (of_int k :: rat)" by simp
    with True show ?thesis by (simp add: round_double_positive)
  next
    case False
    then have "(of_int k :: rat) \<le> 0" by simp
    with False show ?thesis by (simp add: round_double_not_positive)
  qed
  show neg: "js_gt (Fin 0) (round_double (of_int k)) = (k < 0)"
  proof (cases "k < 0")
    case True
    then have "(of_int k :: rat) \<le> - 1" by (simp add: of_int_le_iff [of k "- 1", where ?'a = rat, simplified])
    with True show ?thesis by (simp add: round_double_negative)
  next
    case False
    then have "0 \<le> (of_int k :: rat)" by simp
    with False show ?thesis by (simp add: round_double_not_negative)
  qed
  show "(round_double (of_int k) = Fin 0) = (k = 0)"
  proof (cases "k = 0")
    case True
    then show ?thesis by (simp add: round_double_def)
  next
    case False
    then have "0 < k \<or> k < 0" by auto
    with pos neg have "js_gt (round_double (of_int k)) (Fin 0) \<or> js_gt (Fin 0) (round_double (of_int k))"
      by auto
    then have "round_double (of_int k) \<noteq> Fin 0" by auto
    with False show ?thesis by simp
  qed
qed

lemma round_double_zero [simp]: "round_double 0 = Fin 0"
  by (simp add: round_double_def)

lemma round_double_not_NaN [simp]: "round_double r \<noteq> NaN"
  by (simp add: round_double_def Let_def)

section \<open>Evaluating a rounding\<close>

lemma raise_props:
  "e \<le> 1023 \<Longrightarrow>
     e \<le> raise e a \<and> raise e a \<le> 1023
     \<and> (raise e a = 1023 \<or> a < 2 powi (raise e a + 1))
     \<and> (raise e a = e \<or> 2 powi raise e a \<le> a)"
proof (induction e a rule: raise.induct)
  case (1 e a)
  show ?case
  proof (cases "e < 1023 \<and> 2 powi (e + 1) \<le> a")
    case True
    then have eq: "raise e a = raise (e + 1) a" by (subst raise.simps) simp
    from True have "e + 1 \<le> 1023" by simp
    with 1 True have IH: "e + 1 \<le> raise (e + 1) a \<and> raise (e + 1) a \<le> 1023
     \<and> (raise (e + 1) a = 1023 \<or> a < 2 powi (raise (e + 1) a + 1))
     \<and> (raise (e + 1) a = e + 1 \<or> 2 powi raise (e + 1) a \<le> a)" by blast
    with True show ?thesis unfolding eq by auto
  next
    case False
    then have "raise e a = e" by (subst raise.simps) auto
    with False 1 show ?thesis by auto
  qed
qed

lemma lower_props:
  "- 1022 \<le> e \<Longrightarrow>
     - 1022 \<le> lower e a \<and> lower e a \<le> e
     \<and> (lower e a = - 1022 \<or> 2 powi lower e a \<le> a)
     \<and> (lower e a = e \<or> a < 2 powi (lower e a + 1))"
proof (induction e a rule: lower.induct)
  case (1 e a)
  show ?case
  proof (cases "- 1022 < e \<and> a < 2 powi e")
    case True
    then have eq: "lower e a = lower (e - 1) a" by (subst lower.simps) simp
    from True have "- 1022 \<le> e - 1" by simp
    with 1 True have IH: "- 1022 \<le> lower (e - 1) a \<and> lower (e - 1) a \<le> e - 1
     \<and> (lower (e - 1) a = - 1022 \<or> 2 powi lower (e - 1) a \<le> a)
     \<and> (lower (e - 1) a = e - 1 \<or> a < 2 powi (lower (e - 1) a + 1))" by blast
    with True show ?thesis unfolding eq by auto
  next
    case False
    then have "lower e a = e" by (subst lower.simps) auto
    with False 1 show ?thesis by auto
  qed
qed

lemma powi_less_imp_less: "(2::rat) powi m < 2 powi n \<Longrightarrow> m < n"
proof (rule ccontr)
  assume less: "(2::rat) powi m < 2 powi n" and "\<not> m < n"
  then have "n \<le> m" by simp
  then have "(2::rat) powi n \<le> 2 powi m" by (intro power_int_increasing) auto
  with less show False by simp
qed

lemma exponent_unique:
  assumes "- 1022 \<le> e" and "e \<le> 1023" and low: "2 powi e \<le> a" and high: "a < 2 powi (e + 1)"
  shows "exponent a = e"
proof -
  let ?r = "raise 0 a"
  let ?e = "lower ?r a"
  from raise_props [of 0 a] have r: "0 \<le> ?r" "?r \<le> 1023"
    "?r = 1023 \<or> a < 2 powi (?r + 1)" by auto
  then have "- 1022 \<le> ?r" by simp
  from lower_props [OF this, of a] have l: "- 1022 \<le> ?e" "?e \<le> ?r"
    "?e = - 1022 \<or> 2 powi ?e \<le> a" "?e = ?r \<or> a < 2 powi (?e + 1)" by auto
  have "(2::rat) powi (- 1022) \<le> 2 powi e"
    using assms(1) by (intro power_int_increasing) auto
  with low l(3) have "2 powi ?e \<le> a" by auto
  with high have "(2::rat) powi ?e < 2 powi (e + 1)" by simp
  then have le: "?e \<le> e" using powi_less_imp_less [of ?e "e + 1"] by simp
  have "(2::rat) powi (e + 1) \<le> 2 powi 1024"
    using assms(2) by (intro power_int_increasing) auto
  with high have "a < 2 powi 1024" by simp
  with r(3) l(4) have "a < 2 powi (?e + 1)" by auto
  with low have "(2::rat) powi e < 2 powi (?e + 1)" by simp
  then have "e \<le> ?e" using powi_less_imp_less [of e "?e + 1"] by simp
  with le show ?thesis by (simp add: exponent_def)
qed

lemma round_double_eval:
  assumes "r \<noteq> 0" and "- 1022 \<le> e" and "e \<le> 1023"
    and "2 powi e \<le> \<bar>r\<bar>" and "\<bar>r\<bar> < 2 powi (e + 1)"
  shows "round_double r =
    (let u = 2 powi (e - 52); v = of_int (round_half_even (\<bar>r\<bar> / u)) * u
     in if 2 powi 1024 \<le> v then Inf (0 < r) else Fin (if r < 0 then - v else v))"
  using assms(1) exponent_unique [OF assms(2-5)] by (simp add: round_double_def)

lemma exponent_overflow:
  assumes "2 powi 1024 \<le> a"
  shows "exponent a = 1023"
proof -
  let ?r = "raise 0 a"
  let ?e = "lower ?r a"
  from raise_props [of 0 a] have r: "0 \<le> ?r" "?r \<le> 1023"
    "?r = 1023 \<or> a < 2 powi (?r + 1)" by auto
  then have "- 1022 \<le> ?r" by simp
  from lower_props [OF this, of a] have l: "?e \<le> ?r" "?e = ?r \<or> a < 2 powi (?e + 1)" by auto
  have "(2::rat) powi (?r + 1) \<le> 2 powi 1024"
    using r(2) by (intro power_int_increasing) auto
  with assms r(3) have top: "?r = 1023" by auto
  have "(2::rat) powi (?e + 1) \<le> 2 powi 1024"
    using l(1) r(2) by (intro power_int_increasing) auto
  with assms l(2) top show ?thesis by (auto simp: exponent_def)
qed

lemma round_double_overflow:
  assumes "2 powi 1024 \<le> r"
  shows "round_double r = Inf True"
proof -
  have "(0::rat) < 2 powi 1024" by simp
  with assms have pos: "0 < r" by linarith
  then have abs: "\<bar>r\<bar> = r" by simp
  have e: "exponent \<bar>r\<bar> = 1023" using assms abs exponent_overflow by simp
  let ?u = "(2::rat) powi 971"
  have u: "0 < ?u" by simp
  have split: "(2::rat) powi 1024 = 2 powi 53 * ?u"
    by (simp add: power_int_add [symmetric])
  with assms u have "2 powi 53 \<le> r / ?u" by (simp add: le_divide_eq)
  then have "of_int (2 ^ 53) \<le> r / ?u" by (simp add: power_int_def)
  then have "2 ^ 53 \<le> \<lfloor>r / ?u\<rfloor>" by (simp only: le_floor_iff)
  with round_half_even_ge [of "r / ?u"] have "2 ^ 53 \<le> round_half_even (r / ?u)" by linarith
  then have "(of_int (2 ^ 53) :: rat) \<le> of_int (round_half_even (r / ?u))"
    by (simp only: of_int_le_iff)
  then have "(2::rat) powi 53 \<le> of_int (round_half_even (r / ?u))" by (simp add: power_int_def)
  with u have "2 powi 53 * ?u \<le> of_int (round_half_even (r / ?u)) * ?u"
    by (simp only: mult_le_cancel_right_pos)
  with split have "2 powi 1024 \<le> of_int (round_half_even (r / ?u)) * ?u" by simp
  with pos abs e show ?thesis by (simp add: round_double_def Let_def)
qed

lemma powi_numeral: "(2::rat) powi numeral n = 2 ^ numeral n"
  by (simp add: power_int_def)

lemma powi_neg_numeral: "(2::rat) powi (- numeral n) = 1 / 2 ^ numeral n"
  by (simp add: power_int_def power_divide)

lemmas round_double_numeral =
  powi_numeral powi_neg_numeral round_half_even_def floor_rat_numeral Let_def

section \<open>Sorting records by date\<close>

lemma TimeClip_integer: "TimeClip n = Fin t \<Longrightarrow> \<exists>k. t = of_int k"
  by (auto simp: TimeClip_def split: jsnum.splits if_splits)

lemma new_Date_integer: "new_Date h v = Fin t \<Longrightarrow> \<exists>k. t = of_int k"
  by (auto simp: new_Date_def dest: TimeClip_integer split: jsval.splits)

lemma dated_time: "dated h p \<Longrightarrow> time_of h p = Fin (millis h p)"
  by (auto simp: dated_def millis_def split: jsnum.splits)

lemma dated_integer: "dated h p \<Longrightarrow> \<exists>k. millis h p = of_int k"
  using dated_time [of h p] new_Date_integer [of h "lookup p ''date''" "millis h p"]
  by (simp add: time_of_def)

lemma dated_object: "dated h p \<Longrightarrow> isObject p"
  by (simp add: dated_def)

lemma oldest_first_dated:
  "dated h a \<Longrightarrow> dated h b \<Longrightarrow>
     oldest_first h a b = Inr (round_double (millis h a - millis h b))"
  using dated_time [of h a] dated_time [of h b]
  by (simp add: oldest_first_def get_object dated_object time_of_def)

lemma newest_first_dated:
  "dated h a \<Longrightarrow> dated h b \<Longrightarrow>
     newest_first h a b = Inr (round_double (millis h b - millis h a))"
  using dated_time [of h a] dated_time [of h b]
  by (simp add: newest_first_def get_object dated_object time_of_def)

lemma date_difference:
  assumes "dated h a" and "dated h b"
  shows "js_gt (round_double (millis h a - millis h b)) (Fin 0) = (millis h b < millis h a)"
    and "js_gt (Fin 0) (round_double (millis h a - millis h b)) = (millis h a < millis h b)"
    and "(round_double (millis h a - millis h b) = Fin 0) = (millis h a = millis h b)"
proof -
  from assms obtain i j where ij: "millis h a = of_int i" "millis h b = of_int j"
    using dated_integer by blast
  have diff: "millis h a - millis h b = of_int (i - j)" using ij by simp
  show "js_gt (round_double (millis h a - millis h b)) (Fin 0) = (millis h b < millis h a)"
    unfolding diff round_double_sign using ij by simp
  show "js_gt (Fin 0) (round_double (millis h a - millis h b)) = (millis h a < millis h b)"
    unfolding diff round_double_sign using ij by simp
  show "(round_double (millis h a - millis h b) = Fin 0) = (millis h a = millis h b)"
    unfolding diff round_double_sign using ij by simp
qed

lemma insert_sorted_oldest_first:
  "dated h x \<Longrightarrow> \<forall>y\<in>set ys. dated h y \<Longrightarrow>
     insert_sorted (oldest_first h) x ys = Inr (insort_key (millis h) x ys)"
  by (induction ys) (auto simp: oldest_first_dated date_difference)

lemma insert_sorted_newest_first:
  "dated h x \<Longrightarrow> \<forall>y\<in>set ys. dated h y \<Longrightarrow>
     insert_sorted (newest_first h) x ys = Inr (insort_key (\<lambda>p. - millis h p) x ys)"
  by (induction ys) (auto simp: newest_first_dated date_difference)

lemma sort_defined_oldest_first:
  "\<forall>p\<in>set xs. dated h p \<Longrightarrow>
     sort_defined (oldest_first h) xs = Inr (sort_key (millis h) xs)"
  by (induction xs) (simp_all add: insert_sorted_oldest_first)

lemma sort_defined_newest_first:
  "\<forall>p\<in>set xs. dated h p \<Longrightarrow>
     sort_defined (newest_first h) xs = Inr (sort_key (\<lambda>p. - millis h p) xs)"
  by (induction xs) (simp_all add: insert_sorted_newest_first)

lemma consistent_oldest_first: "\<forall>p\<in>set xs. dated h p \<Longrightarrow> consistent (oldest_first h) xs"
  unfolding consistent_def before_def same_def after_def
  by (auto simp: oldest_first_dated date_difference)

lemma consistent_newest_first: "\<forall>p\<in>set xs. dated h p \<Longrightarrow> consistent (newest_first h) xs"
  unfolding consistent_def before_def same_def after_def
  by (auto simp: newest_first_dated date_difference)

lemma Array_sort_oldest_first:
  assumes "\<forall>p\<in>set xs. dated h p"
  shows "Array_sort h (oldest_first h) xs = Inr (sort_key (millis h) xs)"
proof -
  from assms have "\<forall>p\<in>set xs. isObject p" by (auto simp: dated_object)
  from filter_defined_objects [OF this] sort_defined_oldest_first [OF assms]
    consistent_oldest_first [OF assms]
  show ?thesis by (simp add: Array_sort_def)
qed

lemma Array_sort_newest_first:
  assumes "\<forall>p\<in>set xs. dated h p"
  shows "Array_sort h (newest_first h) xs = Inr (sort_key (\<lambda>p. - millis h p) xs)"
proof -
  from assms have "\<forall>p\<in>set xs. isObject p" by (auto simp: dated_object)
  from filter_defined_objects [OF this] sort_defined_newest_first [OF assms]
    consistent_newest_first [OF assms]
  show ?thesis by (simp add: Array_sort_def)
qed

lemma hd_sort_key_least:
  assumes "xs \<noteq> []"
  shows "hd (sort_key f xs) \<in> set xs \<and> (\<forall>x\<in>set xs. f (hd (sort_key f xs)) \<le> f x)"
proof -
  let ?ys = "sort_key f xs"
  from assms have ne: "?ys \<noteq> []" by (metis length_0_conv length_sort)
  then obtain y ys where ys: "?ys = y # ys" by (cases ?ys) auto
  have elems: "set xs = set (y # ys)" using set_sort [of f xs] ys by metis
  have "sorted (map f (y # ys))" using sorted_sort_key [of f xs] ys by metis
  then have "\<forall>x\<in>set ys. f y \<le> f x" by simp
  with elems ys show ?thesis by auto
qed

lemma last_sort_key_greatest:
  assumes "xs \<noteq> []"
  shows "last (sort_key f xs) \<in> set xs \<and> (\<forall>x\<in>set xs. f x \<le> f (last (sort_key f xs)))"
proof -
  let ?ys = "sort_key f xs"
  from assms have ne: "?ys \<noteq> []" by (metis length_0_conv length_sort)
  have mem: "last ?ys \<in> set xs" using last_in_set [OF ne] by simp
  have srt: "sorted (map f ?ys)" by simp
  have "\<forall>x\<in>set xs. f x \<le> f (last ?ys)"
  proof
    fix x assume "x \<in> set xs"
    then have "x \<in> set ?ys" by simp
    then obtain i where i: "i < length ?ys" "?ys ! i = x"
      unfolding in_set_conv_nth by blast
    have "map f ?ys ! i \<le> map f ?ys ! (length ?ys - 1)"
      using srt i(1) by (intro sorted_nth_mono) auto
    with i ne show "f x \<le> f (last ?ys)" by (simp add: last_conv_nth)
  qed
  with mem show ?thesis by simp
qed

lemma sort_key_reversed:
  fixes f :: "'a \<Rightarrow> rat"
  assumes "f c < f b" and "f b < f a"
  shows "sort_key f (a # replicate n b @ [c]) = c # replicate n b @ [a]"
  using assms by (intro properties_for_sort_key) (auto simp: sorted_append)

section \<open>The example data\<close>

lemma example_dates:
  "new_Date example_host (JStr ''2024-01-01'') = Fin 1704067200000"
  "new_Date example_host (JStr ''2024-01-02'') = Fin 1704153600000"
  "new_Date example_host (JStr ''2024-01-03'') = Fin 1704240000000"
  "new_Date example_host (JStr ''2024-01-04'') = Fin 1704326400000"
  by (simp_all add: new_Date_def TimeClip_def example_host_def)

lemma example_millis:
  "millis example_host (point d c) = (case new_Date example_host (JStr d) of Fin t \<Rightarrow> t | _ \<Rightarrow> 0)"
  "millis example_host (daily_point d c) = (case new_Date example_host (JStr d) of Fin t \<Rightarrow> t | _ \<Rightarrow> 0)"
  "millis example_host (dividend_entry d c) = (case new_Date example_host (JStr d) of Fin t \<Rightarrow> t | _ \<Rightarrow> 0)"
  by (simp_all add: millis_def time_of_def point_def daily_point_def dividend_entry_def)

lemma example_dated:
  "dated example_host (point d c) = (case new_Date example_host (JStr d) of Fin t \<Rightarrow> True | _ \<Rightarrow> False)"
  "dated example_host (daily_point d c) = (case new_Date example_host (JStr d) of Fin t \<Rightarrow> True | _ \<Rightarrow> False)"
  "dated example_host (dividend_entry d c) = (case new_Date example_host (JStr d) of Fin t \<Rightarrow> True | _ \<Rightarrow> False)"
  by (simp_all add: dated_def isObject_def time_of_def point_def daily_point_def dividend_entry_def)

lemma three_days_sorted:
  "Array_sort example_host (newest_first example_host)
     (point ''2024-01-03'' x # replicate n (point ''2024-01-02'' y) @ [point ''2024-01-01'' z]) =
   Inr (point ''2024-01-03'' x # replicate n (point ''2024-01-02'' y) @ [point ''2024-01-01'' z])"
proof -
  let ?series = "point ''2024-01-03'' x # replicate n (point ''2024-01-02'' y) @ [point ''2024-01-01'' z]"
  have dated: "\<forall>p\<in>set ?series. dated example_host p"
    by (simp add: example_dated example_dates)
  have "sorted (map (\<lambda>p. - millis example_host p) ?series)"
    by (simp add: example_millis example_dates sorted_append)
  then have "sort_key (\<lambda>p. - millis example_host p) ?series = ?series"
    by (rule sort_key_id_if_sorted)
  with Array_sort_newest_first [OF dated] show ?thesis by simp
qed

lemma three_days_chronological:
  "Array_sort example_host (oldest_first example_host)
     (point ''2024-01-03'' x # replicate n (point ''2024-01-02'' y) @ [point ''2024-01-01'' z]) =
   Inr (point ''2024-01-01'' z # replicate n (point ''2024-01-02'' y) @ [point ''2024-01-03'' x])"
proof -
  let ?series = "point ''2024-01-03'' x # replicate n (point ''2024-01-02'' y) @ [point ''2024-01-01'' z]"
  have dated: "\<forall>p\<in>set ?series. dated example_host p"
    by (simp add: example_dated example_dates)
  have "sort_key (millis example_host) ?series =
      point ''2024-01-01'' z # replicate n (point ''2024-01-02'' y) @ [point ''2024-01-03'' x]"
    by (rule sort_key_reversed) (simp_all add: example_millis example_dates)
  with Array_sort_oldest_first [OF dated] show ?thesis by simp
qed

section \<open>historical_stock_data: how many points are returned\<close>

lemma ohlcv_projection:
  "isObject p \<Longrightarrow>
     ohlcv p = Inr (JObj (pick p [''date'', ''open'', ''high'', ''low'', ''close'', ''volume'']))"
  by (simp add: ohlcv_def get_object pick_def)

lemma mapM_ohlcv:
  "\<forall>p\<in>set xs. isObject p \<Longrightarrow>
     mapM ohlcv xs =
       Inr (map (\<lambda>p. JObj (pick p [''date'', ''open'', ''high'', ''low'', ''close'', ''volume''])) xs)"
  by (intro mapM_pure) (simp add: ohlcv_projection)

lemma series_guard:
  assumes "isArray history \<or> isObject history" and "series history \<noteq> []"
  shows "(\<not> truthy history
        \<or> (isArray history \<and> lookup history ''length'' = num 0)
        \<or> ((case history of JArr xs \<Rightarrow> True | JObj kvs \<Rightarrow> True | _ \<Rightarrow> False)
            \<and> length (Object_keys history) = 0)) = False"
  using assms
  by (cases history)
     (auto simp: isArray_def isObject_def series_def Object_keys_def Object_values_def flat_def num_def)

lemma get_historical:
  assumes "isArray (or_else (lookup data ''historical'') data)
      \<or> isObject (or_else (lookup data ''historical'') data)"
  shows "get data ''historical'' = Inr (lookup data ''historical'')"
  using assms by (cases data) (auto simp: get_def or_else_def isArray_def isObject_def)

lemma historical_body_sorted:
  assumes shape: "isArray (or_else (lookup data ''historical'') data)
      \<or> isObject (or_else (lookup data ''historical'') data)"
    and nonempty: "series (or_else (lookup data ''historical'') data) \<noteq> []"
    and sorted: "Array_sort h (newest_first h) (series (or_else (lookup data ''historical'') data)) =
        Inr dataPoints"
  shows "historical_body h detail data =
    (if detail = full then
       bind_result (mapM ohlcv (take MAX_POINTS_FOR_FULL_DETAIL dataPoints)) (\<lambda>limitedDetailedData.
         Inr (JSON_stringify (JObj
           [(''message'', JStr (''Showing '' @ show_nat (length limitedDetailedData) @ '' of '' @
               show_nat (length dataPoints) @
               '' fetched data points (full detail requested, capped at '' @
               show_nat MAX_POINTS_FOR_FULL_DETAIL @ '').'')),
            (''data'', JArr limitedDetailedData)])))
     else if length dataPoints > POINTS_THRESHOLD_FOR_SUMMARY then
       bind_result (summarizedHistory h dataPoints) (\<lambda>s. Inr (JSON_stringify s))
     else
       bind_result (mapM ohlcv dataPoints) (\<lambda>allAvailableData.
         Inr (JSON_stringify (JObj
           [(''message'', JStr (''Showing all '' @ show_nat (length allAvailableData) @
               '' fetched data points (below summary threshold).'')),
            (''data'', JArr allAvailableData)]))))"
proof -
  from Array_sort_mset [OF sorted] have "length dataPoints = length (series (or_else (lookup data ''historical'') data))"
    by (rule mset_eq_length)
  with nonempty have ne: "length dataPoints \<noteq> 0" by simp
  show ?thesis
    unfolding historical_body_def Let_def get_historical [OF shape] bind_Inr
      series_guard [OF shape nonempty] if_False sorted
    using ne by simp
qed

lemma fetched_series:
  assumes "(isObject data \<and> lookup data ''historical'' = history)
      \<or> (data = history \<and> \<not> truthy (lookup data ''historical''))"
    and "history = JArr pts
      \<or> (\<exists>groups. history = JObj groups
            \<and> pts = concat (map (\<lambda>(k, v). case v of JArr ys \<Rightarrow> ys | _ \<Rightarrow> [v]) groups))"
  shows "or_else (lookup data ''historical'') data = history"
    and "isArray history \<or> isObject history"
    and "series history = pts"
proof -
  from assms(2) show shape: "isArray history \<or> isObject history"
    by (auto simp: isArray_def isObject_def)
  then have "truthy history" by (cases history) (auto simp: isArray_def isObject_def)
  with assms(1) show "or_else (lookup data ''historical'') data = history"
    by (auto simp: or_else_def)
  have "(\<lambda>v. case v of JArr ys \<Rightarrow> ys | _ \<Rightarrow> [v]) \<circ> snd =
      (\<lambda>(k :: string, v). case v of JArr ys \<Rightarrow> ys | _ \<Rightarrow> [v])"
    by (auto simp: fun_eq_iff split: jsval.splits)
  with assms(2) show "series history = pts"
    by (auto simp: series_def Object_values_def flat_def)
qed

text \<open>
  C1. The provider's answer \<open>data\<close> holds the series \<open>history\<close> under the key
  \<open>historical\<close> or is the series itself; the series is an array of points, or an object
  whose values are arrays of points or single points, which the handler flattens.
  \<open>pts\<close> are its \<open>N\<close> points, each an object, and \<open>N > 0\<close> (an empty series is answered
  by a no-data text before any curation). \<open>dataPoints\<close> is the series as the handler
  sorts it: a rearrangement of \<open>pts\<close>, and when every date is valid the points newest
  first, points of one date in their fetched order.

  For detail \<open>full\<close> the result is the envelope \<open>{message, data}\<close> in which \<open>data\<close> is
  the first 150 of \<open>dataPoints\<close>, each reduced to its six properties date, open, high,
  low, close and volume: \<open>min N 150\<close> points. For detail \<open>summary\<close> and \<open>N \<le> 60\<close> it
  is the envelope \<open>{message, data}\<close> in which \<open>data\<close> is all of \<open>dataPoints\<close>, reduced
  the same way: \<open>N\<close> points, and no digest.
\<close>

theorem historical_stock_data_counts:
  assumes source: "(isObject data \<and> lookup data ''historical'' = history)
      \<or> (data = history \<and> \<not> truthy (lookup data ''historical''))"
    and series: "history = JArr pts
      \<or> (\<exists>groups. history = JObj groups
            \<and> pts = concat (map (\<lambda>(k, v). case v of JArr ys \<Rightarrow> ys | _ \<Rightarrow> [v]) groups))"
    and nonempty: "pts \<noteq> []"
    and objects: "\<forall>p\<in>set pts. isObject p"
  shows "\<exists>dataPoints limited allData.
    mset dataPoints = mset pts
    \<and> ((\<forall>p\<in>set pts. dated h p) \<longrightarrow> dataPoints = sort_key (\<lambda>p. - millis h p) pts)
    \<and> limited =
        map (\<lambda>p. JObj (pick p [''date'', ''open'', ''high'', ''low'', ''close'', ''volume'']))
          (take 150 dataPoints)
    \<and> allData =
        map (\<lambda>p. JObj (pick p [''date'', ''open'', ''high'', ''low'', ''close'', ''volume'']))
          dataPoints
    \<and> historical_stock_data h full (Inr data) =
        text_result (JSON_stringify (JObj
          [(''message'', JStr (''Showing '' @ show_nat (min (length pts) 150) @ '' of '' @
              show_nat (length pts) @
              '' fetched data points (full detail requested, capped at '' @ show_nat 150 @ '').'')),
           (''data'', JArr limited)]))
    \<and> length limited = min (length pts) 150
    \<and> (length pts \<le> 60 \<longrightarrow>
         historical_stock_data h summary (Inr data) =
           text_result (JSON_stringify (JObj
             [(''message'', JStr (''Showing all '' @ show_nat (length pts) @
                 '' fetched data points (below summary threshold).'')),
              (''data'', JArr allData)]))
         \<and> length allData = length pts)"
proof -
  note fetched = fetched_series [OF source series]
  have shape: "isArray (or_else (lookup data ''historical'') data)
      \<or> isObject (or_else (lookup data ''historical'') data)"
    using fetched(1,2) by simp
  have pts: "pts = series (or_else (lookup data ''historical'') data)"
    using fetched(1,3) by simp
  from objects obtain dataPoints where
    sorted: "Array_sort h (newest_first h) pts = Inr dataPoints"
    using Array_sort_objects by blast
  have rearranged: "mset dataPoints = mset pts"
    using sorted by (rule Array_sort_mset)
  then have len: "length dataPoints = length pts"
    by (rule mset_eq_length)
  from rearranged have "set dataPoints = set pts"
    by (rule mset_eq_setD)
  with objects have objs: "\<forall>p\<in>set dataPoints. isObject p" by simp
  then have objs_take: "\<forall>p\<in>set (take MAX_POINTS_FOR_FULL_DETAIL dataPoints). isObject p"
    by (meson in_set_takeD)
  have when_dated: "(\<forall>p\<in>set pts. dated h p) \<longrightarrow> dataPoints = sort_key (\<lambda>p. - millis h p) pts"
    using sorted Array_sort_newest_first [of pts h] by auto
  note body = historical_body_sorted [OF shape nonempty [unfolded pts] sorted [unfolded pts]]
  have full_case: "historical_stock_data h full (Inr data) =
        text_result (JSON_stringify (JObj
          [(''message'', JStr (''Showing '' @ show_nat (min (length pts) 150) @ '' of '' @
              show_nat (length pts) @
              '' fetched data points (full detail requested, capped at '' @ show_nat 150 @ '').'')),
           (''data'', JArr
              (map (\<lambda>p. JObj (pick p [''date'', ''open'', ''high'', ''low'', ''close'', ''volume'']))
                 (take 150 dataPoints)))]))"
    using body [of full] mapM_ohlcv [OF objs_take] len
    by (simp add: historical_stock_data_def MAX_POINTS_FOR_FULL_DETAIL_def)
  have summary_case: "length pts \<le> 60 \<longrightarrow>
         historical_stock_data h summary (Inr data) =
           text_result (JSON_stringify (JObj
             [(''message'', JStr (''Showing all '' @ show_nat (length pts) @
                 '' fetched data points (below summary threshold).'')),
              (''data'', JArr
                 (map (\<lambda>p. JObj (pick p [''date'', ''open'', ''high'', ''low'', ''close'', ''volume'']))
                    dataPoints))]))"
    using body [of summary] mapM_ohlcv [OF objs] len
    by (simp add: historical_stock_data_def POINTS_THRESHOLD_FOR_SUMMARY_def)
  have len_limited:
    "length (map (\<lambda>p. JObj (pick p [''date'', ''open'', ''high'', ''low'', ''close'', ''volume'']))
       (take 150 dataPoints)) = min (length pts) 150"
    using len by simp
  have len_all:
    "length (map (\<lambda>p. JObj (pick p [''date'', ''open'', ''high'', ''low'', ''close'', ''volume'']))
       dataPoints) = length pts"
    using len by simp
  show ?thesis
    apply (rule exI [of _ dataPoints])
    apply (rule exI [of _ "map (\<lambda>p. JObj (pick p [''date'', ''open'', ''high'', ''low'', ''close'', ''volume'']))
       (take 150 dataPoints)"])
    apply (rule exI [of _ "map (\<lambda>p. JObj (pick p [''date'', ''open'', ''high'', ''low'', ''close'', ''volume'']))
       dataPoints"])
    using rearranged when_dated full_case summary_case len_limited len_all
    apply (intro conjI)
    apply blast+
    done
qed

theorem historical_stock_data_counts_witness:
  "historical_stock_data example_host full
     (Inr (JObj [(''symbol'', JStr ''AAPL''),
                 (''historical'', JArr [daily_point ''2024-01-01'' 10, daily_point ''2024-01-02'' 11])])) =
   text_result (JSON_stringify (JObj
     [(''message'', JStr ''Showing 2 of 2 fetched data points (full detail requested, capped at 150).''),
      (''data'', JArr [point ''2024-01-02'' 11, point ''2024-01-01'' 10])]))
   \<and> historical_stock_data example_host summary
     (Inr (JObj [(''first'', JArr [daily_point ''2024-01-01'' 10]),
                 (''second'', JArr [daily_point ''2024-01-02'' 11])])) =
   text_result (JSON_stringify (JObj
     [(''message'', JStr ''Showing all 2 fetched data points (below summary threshold).''),
      (''data'', JArr [point ''2024-01-02'' 11, point ''2024-01-01'' 10])]))"
proof -
  let ?pts = "[daily_point ''2024-01-01'' 10, daily_point ''2024-01-02'' 11]"
  let ?daily = "JObj [(''symbol'', JStr ''AAPL''), (''historical'', JArr ?pts)]"
  let ?grouped = "JObj [(''first'', JArr [daily_point ''2024-01-01'' 10]),
                        (''second'', JArr [daily_point ''2024-01-02'' 11])]"
  have daily: "(isObject ?daily \<and> lookup ?daily ''historical'' = JArr ?pts)
      \<or> (?daily = JArr ?pts \<and> \<not> truthy (lookup ?daily ''historical''))"
    by (simp add: isObject_def)
  have array: "JArr ?pts = JArr ?pts
      \<or> (\<exists>groups. JArr ?pts = JObj groups
            \<and> ?pts = concat (map (\<lambda>(k, v). case v of JArr ys \<Rightarrow> ys | _ \<Rightarrow> [v]) groups))"
    by simp
  have grouped: "(isObject ?grouped \<and> lookup ?grouped ''historical'' = ?grouped)
      \<or> (?grouped = ?grouped \<and> \<not> truthy (lookup ?grouped ''historical''))"
    by simp
  have groups: "?grouped = JArr ?pts
      \<or> (\<exists>groups. ?grouped = JObj groups
            \<and> ?pts = concat (map (\<lambda>(k, v). case v of JArr ys \<Rightarrow> ys | _ \<Rightarrow> [v]) groups))"
    by simp
  have nonempty: "?pts \<noteq> []" by simp
  have objects: "\<forall>p\<in>set ?pts. isObject p"
    by (simp add: daily_point_def isObject_def)
  have dated: "\<forall>p\<in>set ?pts. dated example_host p"
    by (simp add: example_dated example_dates)
  have order: "sort_key (\<lambda>p. - millis example_host p) ?pts =
      [daily_point ''2024-01-02'' 11, daily_point ''2024-01-01'' 10]"
    by (simp add: example_millis example_dates)
  from historical_stock_data_counts [OF daily array nonempty objects, of example_host]
    historical_stock_data_counts [OF grouped groups nonempty objects, of example_host]
    dated order
  show ?thesis
    by (auto simp: pick_def daily_point_def point_def show_nat.simps)
qed

section \<open>historical_stock_data: the percent change of the digest\<close>

lemma percent_not_NaN:
  assumes "f \<noteq> 0"
  shows "js_mul (js_div (js_sub (Fin l) (Fin f)) (Fin f)) (Fin 100) \<noteq> NaN"
proof -
  have sub: "js_sub (Fin l) (Fin f) \<noteq> NaN" by simp
  have quot: "js_div (js_sub (Fin l) (Fin f)) (Fin f) \<noteq> NaN"
    using sub assms by (cases "js_sub (Fin l) (Fin f)") simp_all
  then show ?thesis
    by (cases "js_div (js_sub (Fin l) (Fin f)) (Fin f)") simp_all
qed

lemma percent_exact:
  assumes "f \<noteq> 0"
    and "round_double (l - f) = Fin (l - f)"
    and "round_double ((l - f) / f) = Fin ((l - f) / f)"
    and "round_double ((l - f) / f * 100) = Fin ((l - f) / f * 100)"
  shows "js_mul (js_div (js_sub (Fin l) (Fin f)) (Fin f)) (Fin 100) = Fin ((l - f) / f * 100)"
  using assms by simp

lemma priceChangePercent_numbers:
  "lookup a ''close'' = JNum (Fin f) \<Longrightarrow> lookup b ''close'' = JNum (Fin l) \<Longrightarrow> f \<noteq> 0 \<Longrightarrow> l \<noteq> 0 \<Longrightarrow>
     priceChangePercent h a b = JNum (js_mul (js_div (js_sub (Fin l) (Fin f)) (Fin f)) (Fin 100))"
  by (simp add: priceChangePercent_def ToNumber_def)

lemma priceChangePercent_falsy:
  "\<not> truthy (lookup a ''close'') \<or> \<not> truthy (lookup b ''close'') \<Longrightarrow>
     priceChangePercent h a b = JNull"
  by (auto simp: priceChangePercent_def)

text \<open>
  The percent change is computed in double arithmetic. From a close of 0.1 to a close
  of 0.3 (the doubles nearest to them) it is 199.99999999999997, not 200; from a
  close of \<open>2\<^sup>-\<^sup>1\<^sup>0\<^sup>0\<^sup>0\<close> to a close of \<open>2\<^sup>3\<^sup>0\<close> the quotient overflows, the
  percent change is \<open>Infinity\<close>, and \<^verbatim>\<open>JSON.stringify\<close> writes it as null.
\<close>

lemma price_change_rounded:
  "priceChangePercent example_host
     (JObj [(''close'', JNum (Fin (3602879701896397 / 36028797018963968)))])
     (JObj [(''close'', JNum (Fin (5404319552844595 / 18014398509481984)))]) =
   JNum (Fin (7036874417766399 / 35184372088832))
   \<and> round_double (1 / 10) = Fin (3602879701896397 / 36028797018963968)
   \<and> round_double (3 / 10) = Fin (5404319552844595 / 18014398509481984)"
  by (simp add: priceChangePercent_def ToNumber_def round_double_eval [where e = "- 4"]
      round_double_eval [where e = "- 3"] round_double_eval [where e = "- 2"]
      round_double_eval [where e = 0] round_double_eval [where e = 7] round_double_numeral)

lemma price_change_overflow:
  "priceChangePercent example_host
     (JObj [(''close'', JNum (Fin (1 / 2 ^ 1000)))])
     (JObj [(''close'', JNum (Fin (2 ^ 30)))]) = JNum (Inf True)
   \<and> json (JNum (Inf True)) = JNull"
proof -
  have "js_sub (Fin (2 ^ 30)) (Fin (1 / 2 ^ 1000)) = Fin (2 ^ 30)"
    by (simp add: round_double_eval [where e = 29] round_double_numeral)
  moreover have "js_div (Fin (2 ^ 30)) (Fin (1 / 2 ^ 1000)) = Inf True"
    by (simp add: round_double_overflow powi_numeral)
  ultimately show ?thesis
    by (simp add: priceChangePercent_def ToNumber_def)
qed

text \<open>
  C2, as the claim states it, fails: over 61 points whose close falls from 100 on the
  first day to 0 on the last, both closes are present and the first is not 0, yet the
  percent change is null, not -100; and the message is the usual one, with no word of
  a change that could not be calculated.
\<close>

theorem price_change_null_for_zero_close:
  "historical_stock_data example_host summary (Inr (JArr example_series)) =
   text_result (JSON_stringify (JObj
     [(''message'', JStr (''Summarized 61 data points from 2024-01-01 to 2024-01-03. '' @
         ''Showing 5 most recent points. Request '' @ [CHR 0x27] @ ''full'' @ [CHR 0x27] @
         '' detail for more data points (up to 150).'')),
      (''periodStartDate'', JStr ''2024-01-01''),
      (''periodEndDate'', JStr ''2024-01-03''),
      (''startPrice'', JNum (Fin 100)),
      (''endPrice'', JNum (Fin 0)),
      (''periodHigh'', JNum (Fin 101)),
      (''periodLow'', JNum (Fin 0)),
      (''priceChangePercent'', JNull),
      (''recentData'', JArr
         [point ''2024-01-03'' 0, point ''2024-01-02'' 50, point ''2024-01-02'' 50,
          point ''2024-01-02'' 50, point ''2024-01-02'' 50])]))"
proof -
  have digest: "summarizedHistory example_host example_series = Inr (JObj
     [(''message'', JStr (''Summarized 61 data points from 2024-01-01 to 2024-01-03. '' @
         ''Showing 5 most recent points. Request '' @ [CHR 0x27] @ ''full'' @ [CHR 0x27] @
         '' detail for more data points (up to 150).'')),
      (''periodStartDate'', JStr ''2024-01-01''),
      (''periodEndDate'', JStr ''2024-01-03''),
      (''startPrice'', JNum (Fin 100)),
      (''endPrice'', JNum (Fin 0)),
      (''periodHigh'', JNum (Fin 101)),
      (''periodLow'', JNum (Fin 0)),
      (''priceChangePercent'', JNull),
      (''recentData'', JArr
         [point ''2024-01-03'' 0, point ''2024-01-02'' 50, point ''2024-01-02'' 50,
          point ''2024-01-02'' 50, point ''2024-01-02'' 50])])"
    unfolding summarizedHistory_def example_series_def three_days_chronological bind_Inr
    by code_simp
  have "historical_body example_host summary (JArr example_series) =
      bind_result (summarizedHistory example_host example_series) (\<lambda>s. Inr (JSON_stringify s))"
    using three_days_sorted [of 0 59 50 100]
    by (subst historical_body_sorted [where dataPoints = example_series])
       (simp_all add: or_else_def series_def isArray_def example_series_def
         POINTS_THRESHOLD_FOR_SUMMARY_def)
  with digest show ?thesis
    by (simp add: historical_stock_data_def)
qed

text \<open>
  C2, amended. The series \<open>pts\<close> (an array, or an object of arrays, bare or under
  \<open>historical\<close>) has more than 60 points, each an object with a valid date. The digest
  is computed over a chronologically first point \<open>first\<close> and a chronologically last
  point \<open>last\<close>: no point is earlier than \<open>first\<close>, none later than \<open>last\<close>; they
  are the first and the last of the series sorted newest first and then, keeping the
  order of points of one date, oldest first.

  When both closes are numbers other than 0, \<open>priceChangePercent\<close> is
  \<open>(last.close - first.close) / first.close * 100\<close> in double arithmetic, each of the
  three operations rounded: it is never \<open>NaN\<close>; it is the exact value of the formula
  when the three results are doubles; it can be \<open>Infinity\<close> when an operation
  overflows. When either close is falsy (absent, null or 0, so also when only the last
  close is 0) it is null. The message is built from the number of points and the two
  dates alone: it is the same in all cases.
\<close>

theorem price_change_percent:
  assumes source: "(isObject data \<and> lookup data ''historical'' = history)
      \<or> (data = history \<and> \<not> truthy (lookup data ''historical''))"
    and series: "history = JArr pts
      \<or> (\<exists>groups. history = JObj groups
            \<and> pts = concat (map (\<lambda>(k, v). case v of JArr ys \<Rightarrow> ys | _ \<Rightarrow> [v]) groups))"
    and many: "60 < length pts"
    and dated: "\<forall>p\<in>set pts. dated h p"
  shows "\<exists>first last digest.
    historical_stock_data h summary (Inr data) = text_result (JSON_stringify digest)
    \<and> first = hd (sort_key (millis h) (sort_key (\<lambda>p. - millis h p) pts))
    \<and> last = List.last (sort_key (millis h) (sort_key (\<lambda>p. - millis h p) pts))
    \<and> first \<in> set pts \<and> last \<in> set pts
    \<and> (\<forall>p\<in>set pts. millis h first \<le> millis h p \<and> millis h p \<le> millis h last)
    \<and> lookup digest ''message'' = JStr (summary_message h (length pts) first last)
    \<and> (\<forall>f l. lookup first ''close'' = JNum (Fin f) \<and> lookup last ''close'' = JNum (Fin l)
              \<and> f \<noteq> 0 \<and> l \<noteq> 0 \<longrightarrow>
          lookup digest ''priceChangePercent'' =
            JNum (js_mul (js_div (js_sub (Fin l) (Fin f)) (Fin f)) (Fin 100))
          \<and> lookup digest ''priceChangePercent'' \<noteq> JNum NaN
          \<and> (round_double (l - f) = Fin (l - f)
             \<and> round_double ((l - f) / f) = Fin ((l - f) / f)
             \<and> round_double ((l - f) / f * 100) = Fin ((l - f) / f * 100) \<longrightarrow>
               lookup digest ''priceChangePercent'' = JNum (Fin ((l - f) / f * 100))))
    \<and> (\<not> truthy (lookup first ''close'') \<or> \<not> truthy (lookup last ''close'') \<longrightarrow>
          lookup digest ''priceChangePercent'' = JNull)"
proof -
  let ?desc = "sort_key (\<lambda>p. - millis h p) pts"
  let ?chron = "sort_key (millis h) ?desc"
  let ?first = "hd ?chron"
  let ?last = "last ?chron"
  note fetched = fetched_series [OF source series]
  have shape: "isArray (or_else (lookup data ''historical'') data)
      \<or> isObject (or_else (lookup data ''historical'') data)"
    using fetched(1,2) by simp
  have pts: "pts = series (or_else (lookup data ''historical'') data)"
    using fetched(1,3) by simp
  have desc: "Array_sort h (newest_first h) pts = Inr ?desc"
    using dated by (rule Array_sort_newest_first)
  have dated_desc: "\<forall>p\<in>set ?desc. dated h p" using dated by simp
  have chron: "Array_sort h (oldest_first h) ?desc = Inr ?chron"
    using dated_desc by (rule Array_sort_oldest_first)
  have "pts \<noteq> []" using many by auto
  then have ne: "pts \<noteq> []" "?desc \<noteq> []"
    by (metis length_0_conv length_sort)+
  have objects: "\<forall>p\<in>set ?chron. isObject p" using dated by (auto simp: dated_object)
  have highs: "mapM (\<lambda>p. get p ''high'') ?chron = Inr (map (\<lambda>p. lookup p ''high'') ?chron)"
    using objects by (intro mapM_pure) (auto simp: get_object simp del: set_sort)
  have lows: "mapM (\<lambda>p. get p ''low'') ?chron = Inr (map (\<lambda>p. lookup p ''low'') ?chron)"
    using objects by (intro mapM_pure) (auto simp: get_object simp del: set_sort)
  have "\<forall>p\<in>set (take RECENT_POINTS_TO_SHOW_WITH_SUMMARY ?desc). \<exists>d. ohlcv p = Inr d"
    using dated by (auto dest!: in_set_takeD intro!: ohlcv_object dated_object)
  then obtain recentData where
    recent: "mapM ohlcv (take RECENT_POINTS_TO_SHOW_WITH_SUMMARY ?desc) = Inr recentData"
    using mapM_total by blast
  define digest where "digest = JObj
         [(''message'', JStr (summary_message h (length pts) ?first ?last)),
          (''periodStartDate'', lookup ?first ''date''),
          (''periodEndDate'', lookup ?last ''date''),
          (''startPrice'', lookup ?first ''close''),
          (''endPrice'', lookup ?last ''close''),
          (''periodHigh'', JNum (Math_max (map (ToNumber h) (map (\<lambda>p. lookup p ''high'') ?chron)))),
          (''periodLow'', JNum (Math_min (map (ToNumber h) (map (\<lambda>p. lookup p ''low'') ?chron)))),
          (''priceChangePercent'', priceChangePercent h ?first ?last),
          (''recentData'', JArr recentData)]"
  have digest_of: "summarizedHistory h ?desc = Inr digest"
    using chron highs lows recent
    by (simp add: summarizedHistory_def digest_def Let_def del: set_sort)
  have result: "historical_stock_data h summary (Inr data) = text_result (JSON_stringify digest)"
    using historical_body_sorted [OF shape ne(1) [unfolded pts] desc [unfolded pts], of summary]
      digest_of many
    by (simp add: historical_stock_data_def POINTS_THRESHOLD_FOR_SUMMARY_def pts)
  have first: "?first \<in> set pts \<and> (\<forall>p\<in>set pts. millis h ?first \<le> millis h p)"
    using hd_sort_key_least [OF ne(2), of "millis h"] by simp
  have last: "?last \<in> set pts \<and> (\<forall>p\<in>set pts. millis h p \<le> millis h ?last)"
    using last_sort_key_greatest [OF ne(2), of "millis h"] by simp
  have msg: "lookup digest ''message'' = JStr (summary_message h (length pts) ?first ?last)"
    by (simp add: digest_def)
  have pcp: "lookup digest ''priceChangePercent'' = priceChangePercent h ?first ?last"
    by (simp add: digest_def)
  have numbers: "\<forall>f l. lookup ?first ''close'' = JNum (Fin f) \<and> lookup ?last ''close'' = JNum (Fin l)
              \<and> f \<noteq> 0 \<and> l \<noteq> 0 \<longrightarrow>
          lookup digest ''priceChangePercent'' =
            JNum (js_mul (js_div (js_sub (Fin l) (Fin f)) (Fin f)) (Fin 100))
          \<and> lookup digest ''priceChangePercent'' \<noteq> JNum NaN
          \<and> (round_double (l - f) = Fin (l - f)
             \<and> round_double ((l - f) / f) = Fin ((l - f) / f)
             \<and> round_double ((l - f) / f * 100) = Fin ((l - f) / f * 100) \<longrightarrow>
               lookup digest ''priceChangePercent'' = JNum (Fin ((l - f) / f * 100)))"
  proof (intro allI impI)
    fix f l
    assume a: "lookup ?first ''close'' = JNum (Fin f) \<and> lookup ?last ''close'' = JNum (Fin l)
              \<and> f \<noteq> 0 \<and> l \<noteq> 0"
    then have eq: "lookup digest ''priceChangePercent'' =
            JNum (js_mul (js_div (js_sub (Fin l) (Fin f)) (Fin f)) (Fin 100))"
      using pcp priceChangePercent_numbers [of ?first f ?last l h] by simp
    from a have f: "f \<noteq> 0" by simp
    show "lookup digest ''priceChangePercent'' =
            JNum (js_mul (js_div (js_sub (Fin l) (Fin f)) (Fin f)) (Fin 100))
          \<and> lookup digest ''priceChangePercent'' \<noteq> JNum NaN
          \<and> (round_double (l - f) = Fin (l - f)
             \<and> round_double ((l - f) / f) = Fin ((l - f) / f)
             \<and> round_double ((l - f) / f * 100) = Fin ((l - f) / f * 100) \<longrightarrow>
               lookup digest ''priceChangePercent'' = JNum (Fin ((l - f) / f * 100)))"
      using eq percent_not_NaN [OF f, of l] percent_exact [OF f, of l] by auto
  qed
  have falsy: "\<not> truthy (lookup ?first ''close'') \<or> \<not> truthy (lookup ?last ''close'') \<longrightarrow>
          lookup digest ''priceChangePercent'' = JNull"
    using pcp priceChangePercent_falsy by metis
  show ?thesis
    apply (rule exI [of _ ?first])
    apply (rule exI [of _ ?last])
    apply (rule exI [of _ digest])
    using result first last msg numbers falsy
    apply (intro conjI)
    apply blast+
    done
qed

theorem price_change_percent_witness:
  "\<exists>digest.
     historical_stock_data example_host summary (Inr (JArr rising_series)) =
       text_result (JSON_stringify digest)
     \<and> lookup digest ''message'' =
         JStr (''Summarized 61 data points from 2024-01-01 to 2024-01-03. '' @
           ''Showing 5 most recent points. Request '' @ [CHR 0x27] @ ''full'' @ [CHR 0x27] @
           '' detail for more data points (up to 150).'')
     \<and> lookup digest ''priceChangePercent'' = JNum (Fin 50)"
proof -
  have source: "(isObject (JArr rising_series)
        \<and> lookup (JArr rising_series) ''historical'' = JArr rising_series)
      \<or> (JArr rising_series = JArr rising_series
          \<and> \<not> truthy (lookup (JArr rising_series) ''historical''))"
    by simp
  have series: "JArr rising_series = JArr rising_series
      \<or> (\<exists>groups. JArr rising_series = JObj groups
            \<and> rising_series =
                concat (map (\<lambda>(k, v). case v of JArr ys \<Rightarrow> ys | _ \<Rightarrow> [v]) groups))"
    by simp
  have many: "60 < length rising_series"
    by (simp add: rising_series_def)
  have dated: "\<forall>p\<in>set rising_series. dated example_host p"
    by (simp add: rising_series_def example_dated example_dates)
  from price_change_percent [OF source series many dated] obtain first last digest where
    result: "historical_stock_data example_host summary (Inr (JArr rising_series)) =
        text_result (JSON_stringify digest)"
    and members: "first \<in> set rising_series" "last \<in> set rising_series"
    and extremes: "\<forall>p\<in>set rising_series.
        millis example_host first \<le> millis example_host p \<and>
        millis example_host p \<le> millis example_host last"
    and msg: "lookup digest ''message'' =
        JStr (summary_message example_host (length rising_series) first last)"
    and numbers: "\<forall>f l. lookup first ''close'' = JNum (Fin f) \<and> lookup last ''close'' = JNum (Fin l)
              \<and> f \<noteq> 0 \<and> l \<noteq> 0 \<longrightarrow>
          lookup digest ''priceChangePercent'' =
            JNum (js_mul (js_div (js_sub (Fin l) (Fin f)) (Fin f)) (Fin 100))
          \<and> lookup digest ''priceChangePercent'' \<noteq> JNum NaN
          \<and> (round_double (l - f) = Fin (l - f)
             \<and> round_double ((l - f) / f) = Fin ((l - f) / f)
             \<and> round_double ((l - f) / f * 100) = Fin ((l - f) / f * 100) \<longrightarrow>
               lookup digest ''priceChangePercent'' = JNum (Fin ((l - f) / f * 100)))"
    by blast
  from members(1) extremes have first: "first = point ''2024-01-01'' 100"
    by (auto simp: rising_series_def example_millis example_dates)
  from members(2) extremes have last: "last = point ''2024-01-03'' 150"
    by (auto simp: rising_series_def example_millis example_dates)
  have doubles: "round_double 50 = Fin 50" "round_double (1 / 2) = Fin (1 / 2)"
    by (simp_all add: round_double_eval [where e = 5] round_double_eval [where e = "- 1"]
        round_double_numeral)
  from numbers [rule_format, of 100 150] first last doubles
  have percent: "lookup digest ''priceChangePercent'' = JNum (Fin 50)"
    by (simp add: point_def)
  have "summary_message example_host (length rising_series) first last =
      ''Summarized 61 data points from 2024-01-01 to 2024-01-03. '' @
      ''Showing 5 most recent points. Request '' @ [CHR 0x27] @ ''full'' @ [CHR 0x27] @
      '' detail for more data points (up to 150).''"
    by (simp add: summary_message_def first last point_def rising_series_def show_nat.simps
        RECENT_POINTS_TO_SHOW_WITH_SUMMARY_def MAX_POINTS_FOR_FULL_DETAIL_def)
  with result msg percent show ?thesis by (intro exI [of _ digest]) simp
qed

section \<open>Which records are the most recent ones\<close>

lemma dividend_record_object: "isObject dv \<Longrightarrow> dividend_record dv =
    Inr (JObj (pick dv [''date'', ''label'', ''dividend'', ''adjDividend'', ''recordDate'',
         ''paymentDate'', ''declarationDate'']))"
  by (simp add: dividend_record_def get_object)

lemma dividend_calendar_sorted:
  assumes "lookup data ''historical'' = JArr dividends" "isObject data"
    and "dividends \<noteq> []" "\<forall>p\<in>set dividends. dated h p"
  shows "dividend_calendar h symbol limit (Inr data) =
    text_result (JSON_stringify (JObj
      [(''message'', JStr
          (if limit < length dividends then
             ''Displaying '' @ show_nat limit @ '' most recent of '' @
             show_nat (length dividends) @ '' dividend records fetched for '' @ symbol @ ''.''
           else
             ''Found '' @ show_nat (length dividends) @ '' dividend records for '' @ symbol @ ''.'')),
       (''dividends'', JArr
          (map (\<lambda>dv. JObj (pick dv [''date'', ''label'', ''dividend'', ''adjDividend'',
                  ''recordDate'', ''paymentDate'', ''declarationDate'']))
             (take limit (sort_key (\<lambda>p. - millis h p) dividends))))]))"
proof -
  let ?sorted = "sort_key (\<lambda>p. - millis h p) dividends"
  have sorted: "Array_sort h (newest_first h) dividends = Inr ?sorted"
    using assms(4) by (rule Array_sort_newest_first)
  have "\<forall>dv\<in>set (take limit ?sorted). isObject dv"
    using assms(4) by (auto dest!: in_set_takeD intro: dated_object)
  then have recent: "mapM dividend_record (take limit ?sorted) =
      Inr (map (\<lambda>dv. JObj (pick dv [''date'', ''label'', ''dividend'', ''adjDividend'',
                  ''recordDate'', ''paymentDate'', ''declarationDate''])) (take limit ?sorted))"
    by (intro mapM_pure) (simp add: dividend_record_object)
  show ?thesis
    using assms(1-3) sorted recent
    by (auto simp: dividend_calendar_def dividend_body_def get_object spread_def min_def)
qed

text \<open>
  C3. The provider answers oldest first. \<open>dividend_calendar\<close> sorts by date and returns
  the two latest records. \<open>technical_indicator\<close> and \<open>stock_news\<close> do not sort: they
  return the first three entries of the array as it arrived, here the three oldest,
  under a message that calls them the most recent.
\<close>

theorem most_recent_records:
  "dividend_calendar example_host ''AAPL'' 2
     (Inr (JObj [(''symbol'', JStr ''AAPL''),
                 (''historical'', JArr [dividend_entry ''2024-01-01'' 1, dividend_entry ''2024-01-02'' 2,
                                       dividend_entry ''2024-01-03'' 3])])) =
   text_result (JSON_stringify (JObj
     [(''message'', JStr ''Displaying 2 most recent of 3 dividend records fetched for AAPL.''),
      (''dividends'', JArr
         [JObj [(''date'', JStr ''2024-01-03''), (''label'', JStr ''2024-01-03''),
                (''dividend'', JNum (Fin 3)), (''adjDividend'', JNum (Fin 3)),
                (''recordDate'', JUndefined), (''paymentDate'', JUndefined),
                (''declarationDate'', JUndefined)],
          JObj [(''date'', JStr ''2024-01-02''), (''label'', JStr ''2024-01-02''),
                (''dividend'', JNum (Fin 2)), (''adjDividend'', JNum (Fin 2)),
                (''recordDate'', JUndefined), (''paymentDate'', JUndefined),
                (''declarationDate'', JUndefined)]])]))
   \<and> technical_indicator ''AAPL'' ''daily'' ''SMA'' 10
     (Inr (JArr [sma_value ''2024-01-01'' 11, sma_value ''2024-01-02'' 12,
                 sma_value ''2024-01-03'' 13, sma_value ''2024-01-04'' 14])) =
   text_result (JSON_stringify (JObj
     [(''message'', JStr ''Showing 3 most recent SMA values of 4 fetched. Full series available via API.''),
      (''indicator'', JStr ''SMA''),
      (''values'', JArr
         [JObj [(''date'', JStr ''2024-01-01''), (''sma'', JNum (Fin 11))],
          JObj [(''date'', JStr ''2024-01-02''), (''sma'', JNum (Fin 12))],
          JObj [(''date'', JStr ''2024-01-03''), (''sma'', JNum (Fin 13))]])]))
   \<and> stock_news example_host summary
     (Inr (JArr [article ''A'' ''2024-01-01'', article ''B'' ''2024-01-02'',
                 article ''C'' ''2024-01-03'', article ''D'' ''2024-01-04''])) =
   text_result (JSON_stringify (JObj
     [(''message'', JStr (''Displaying summaries for the 3 most recent of 4 articles fetched. Request '' @
         [CHR 0x27] @ ''full'' @ [CHR 0x27] @ '' detail for more.'')),
      (''articles'', JArr
        [JObj [(''title'', JStr ''A''), (''publishedDate'', JStr ''2024-01-01''),
               (''site'', JStr ''example.com''), (''url'', JStr ''https://example.com/a''),
               (''snippet'', JStr ''Short text.'')],
         JObj [(''title'', JStr ''B''), (''publishedDate'', JStr ''2024-01-02''),
               (''site'', JStr ''example.com''), (''url'', JStr ''https://example.com/a''),
               (''snippet'', JStr ''Short text.'')],
         JObj [(''title'', JStr ''C''), (''publishedDate'', JStr ''2024-01-03''),
               (''site'', JStr ''example.com''), (''url'', JStr ''https://example.com/a''),
               (''snippet'', JStr ''Short text.'')]])]))"
proof -
  have dividends: "dividend_calendar example_host ''AAPL'' 2
     (Inr (JObj [(''symbol'', JStr ''AAPL''),
                 (''historical'', JArr [dividend_entry ''2024-01-01'' 1, dividend_entry ''2024-01-02'' 2,
                                       dividend_entry ''2024-01-03'' 3])])) =
   text_result (JSON_stringify (JObj
     [(''message'', JStr ''Displaying 2 most recent of 3 dividend records fetched for AAPL.''),
      (''dividends'', JArr
         [JObj [(''date'', JStr ''2024-01-03''), (''label'', JStr ''2024-01-03''),
                (''dividend'', JNum (Fin 3)), (''adjDividend'', JNum (Fin 3)),
                (''recordDate'', JUndefined), (''paymentDate'', JUndefined),
                (''declarationDate'', JUndefined)],
          JObj [(''date'', JStr ''2024-01-02''), (''label'', JStr ''2024-01-02''),
                (''dividend'', JNum (Fin 2)), (''adjDividend'', JNum (Fin 2)),
                (''recordDate'', JUndefined), (''paymentDate'', JUndefined),
                (''declarationDate'', JUndefined)]])]))"
  proof -
    let ?dividends = "[dividend_entry ''2024-01-01'' 1, dividend_entry ''2024-01-02'' 2,
                       dividend_entry ''2024-01-03'' 3]"
    let ?data = "JObj [(''symbol'', JStr ''AAPL''), (''historical'', JArr ?dividends)]"
    have "dividend_calendar example_host ''AAPL'' 2 (Inr ?data) =
      text_result (JSON_stringify (JObj
        [(''message'', JStr
            (if 2 < length ?dividends then
               ''Displaying '' @ show_nat 2 @ '' most recent of '' @
               show_nat (length ?dividends) @ '' dividend records fetched for '' @ ''AAPL'' @ ''.''
             else
               ''Found '' @ show_nat (length ?dividends) @ '' dividend records for '' @ ''AAPL'' @ ''.'')),
         (''dividends'', JArr
            (map (\<lambda>dv. JObj (pick dv [''date'', ''label'', ''dividend'', ''adjDividend'',
                    ''recordDate'', ''paymentDate'', ''declarationDate'']))
               (take 2 (sort_key (\<lambda>p. - millis example_host p) ?dividends))))]))"
      by (rule dividend_calendar_sorted)
         (simp_all add: isObject_def example_dated example_dates)
    moreover have "sort_key (\<lambda>p. - millis example_host p) ?dividends =
        [dividend_entry ''2024-01-03'' 3, dividend_entry ''2024-01-02'' 2,
         dividend_entry ''2024-01-01'' 1]"
      by (simp add: example_millis example_dates)
    ultimately show ?thesis
      by (simp add: pick_def dividend_entry_def show_nat.simps)
  qed
  have indicator: "technical_indicator ''AAPL'' ''daily'' ''SMA'' 10
     (Inr (JArr [sma_value ''2024-01-01'' 11, sma_value ''2024-01-02'' 12,
                 sma_value ''2024-01-03'' 13, sma_value ''2024-01-04'' 14])) =
   text_result (JSON_stringify (JObj
     [(''message'', JStr ''Showing 3 most recent SMA values of 4 fetched. Full series available via API.''),
      (''indicator'', JStr ''SMA''),
      (''values'', JArr
         [JObj [(''date'', JStr ''2024-01-01''), (''sma'', JNum (Fin 11))],
          JObj [(''date'', JStr ''2024-01-02''), (''sma'', JNum (Fin 12))],
          JObj [(''date'', JStr ''2024-01-03''), (''sma'', JNum (Fin 13))]])]))"
    by (simp add: technical_indicator_def error_text_def isArray_def num_def
        RECENT_VALUES_COUNT_def sma_value_def indicator_value_def get_def toLowerCase_def
        toUpperCase_def or_else_def show_nat.simps)
  have news: "stock_news example_host summary
     (Inr (JArr [article ''A'' ''2024-01-01'', article ''B'' ''2024-01-02'',
                 article ''C'' ''2024-01-03'', article ''D'' ''2024-01-04''])) =
   text_result (JSON_stringify (JObj
     [(''message'', JStr (''Displaying summaries for the 3 most recent of 4 articles fetched. Request '' @
         [CHR 0x27] @ ''full'' @ [CHR 0x27] @ '' detail for more.'')),
      (''articles'', JArr
        [JObj [(''title'', JStr ''A''), (''publishedDate'', JStr ''2024-01-01''),
               (''site'', JStr ''example.com''), (''url'', JStr ''https://example.com/a''),
               (''snippet'', JStr ''Short text.'')],
         JObj [(''title'', JStr ''B''), (''publishedDate'', JStr ''2024-01-02''),
               (''site'', JStr ''example.com''), (''url'', JStr ''https://example.com/a''),
               (''snippet'', JStr ''Short text.'')],
         JObj [(''title'', JStr ''C''), (''publishedDate'', JStr ''2024-01-03''),
               (''site'', JStr ''example.com''), (''url'', JStr ''https://example.com/a''),
               (''snippet'', JStr ''Short text.'')]])]))"
    by (simp add: stock_news_def error_text_def article_def num_def ARTICLES_FOR_SUMMARY_def
        summarizedArticle_def get_def truncated_def pick_def ToNumber_def show_nat.simps)
  from dividends indicator news show ?thesis by blast
qed

theorem most_recent_records_witness:
  "technical_indicator ''AAPL'' ''daily'' ''SMA'' 10
     (Inr (JArr [sma_value ''2024-01-01'' 11, sma_value ''2024-01-02'' 12,
                 sma_value ''2024-01-03'' 13, sma_value ''2024-01-04'' 14])) =
   text_result (JSON_stringify (JObj
     [(''message'', JStr ''Showing 3 most recent SMA values of 4 fetched. Full series available via API.''),
      (''indicator'', JStr ''SMA''),
      (''values'', JArr
         [JObj [(''date'', JStr ''2024-01-01''), (''sma'', JNum (Fin 11))],
          JObj [(''date'', JStr ''2024-01-02''), (''sma'', JNum (Fin 12))],
          JObj [(''date'', JStr ''2024-01-03''), (''sma'', JNum (Fin 13))]])]))"
  using most_recent_records by blast

section \<open>Capped collections: stock_news and earnings_calendar\<close>

text \<open>
  C4, as the claim states it, fails: in summary mode two fetched articles are returned
  as a bare array, with no message and so no statement of the count found.
\<close>

theorem stock_news_without_message:
  "stock_news example_host summary
     (Inr (JArr [article ''First'' ''2024-01-02'', article ''Second'' ''2024-01-01''])) =
   text_result (JSON_stringify (JArr
     [JObj [(''title'', JStr ''First''), (''publishedDate'', JStr ''2024-01-02''),
            (''site'', JStr ''example.com''), (''url'', JStr ''https://example.com/a''),
            (''snippet'', JStr ''Short text.'')],
      JObj [(''title'', JStr ''Second''), (''publishedDate'', JStr ''2024-01-01''),
            (''site'', JStr ''example.com''), (''url'', JStr ''https://example.com/a''),
            (''snippet'', JStr ''Short text.'')]]))"
  by (simp add: stock_news_def error_text_def article_def num_def ARTICLES_FOR_SUMMARY_def
      summarizedArticle_def get_def truncated_def pick_def ToNumber_def)

text \<open>
  C4, amended. \<open>xs\<close> are the fetched articles and \<open>ys\<close> the fetched earnings events,
  both not empty, none null; an article's text is a string, null or absent.

  News: the articles shown are the first \<open>min N 10\<close> (full) or \<open>min N 3\<close> (summary)
  in the provider's order. In full mode the payload is always the envelope
  \<open>{message, articles}\<close> whose message states K of N and the cap, without a hint to
  ask for more. In summary mode with more than 3 articles it is the envelope whose
  message states K of N and the hint to request full detail; with 3 or fewer it is
  the bare array, with no message.

  Earnings: the events shown are the first \<open>min N 10\<close>. Without a symbol and with
  more than 10 events the payload is the envelope \<open>{message, earningsEvents}\<close> whose
  message states 10 of N and the hint to narrow the request; otherwise it is the bare
  array, with no message.
\<close>

theorem capped_collections:
  assumes xs: "xs \<noteq> []"
    and articles: "\<forall>a\<in>set xs. \<not> nullish a \<and>
          (lookup a ''text'' = JNull \<or> lookup a ''text'' = JUndefined \<or> (\<exists>s. lookup a ''text'' = JStr s))"
    and ys: "ys \<noteq> []"
    and events: "\<forall>e\<in>set ys. \<not> nullish e"
  shows
    "(\<exists>shown.
        mapM (summarizedArticle h) (take (min (length xs) (if detail = full then 10 else 3)) xs) = Inr shown \<and>
        length shown = min (length xs) (if detail = full then 10 else 3) \<and>
        stock_news h detail (Inr (JArr xs)) =
          (if detail = full then
             text_result (JSON_stringify (JObj
               [(''message'', JStr (''Displaying '' @ show_nat (length shown) @ '' of '' @
                   show_nat (length xs) @ '' fetched articles (full detail requested, capped at '' @
                   show_nat 10 @ ''):'')),
                (''articles'', JArr shown)]))
           else if 3 < length xs then
             text_result (JSON_stringify (JObj
               [(''message'', JStr (''Displaying summaries for the '' @ show_nat (length shown) @
                   '' most recent of '' @ show_nat (length xs) @ '' articles fetched. Request '' @
                   [CHR 0x27] @ ''full'' @ [CHR 0x27] @ '' detail for more.'')),
                (''articles'', JArr shown)]))
           else text_result (JSON_stringify (JArr shown))))
     \<and> earnings_calendar h symbol (Inr (JArr ys)) =
         (if (symbol = None \<or> symbol = Some '''') \<and> 10 < length ys then
            text_result (JSON_stringify (JObj
              [(''message'', JStr (''Displaying first '' @ show_nat 10 @ '' of '' @ show_nat (length ys) @
                  '' earnings events. Specify a symbol or a tighter date range for more targeted results.'')),
               (''earningsEvents'', JArr
                  (map (\<lambda>item. JObj (pick item [''date'', ''symbol'', ''epsEstimated'', ''time'']))
                     (take 10 ys)))]))
          else
            text_result (JSON_stringify (JArr
              (map (\<lambda>item. JObj (pick item [''date'', ''symbol'', ''eps'', ''epsEstimated'',
                   ''revenue'', ''revenueEstimated'', ''time'', ''fiscalDateEnding'']))
                 (take 10 ys)))))
     \<and> length (take 10 ys) = min (length ys) 10"
proof -
  let ?k = "min (length xs) (if detail = full then 10 else 3)"
  have "\<forall>a\<in>set (take ?k xs). \<exists>d. summarizedArticle h a = Inr d"
    using articles summarizedArticle_total by (meson in_set_takeD)
  then obtain shown where shown: "mapM (summarizedArticle h) (take ?k xs) = Inr shown"
    using mapM_total by blast
  have len: "length shown = ?k"
    using mapM_length [OF shown] by simp
  have guard: "lookup (JArr xs) ''length'' \<noteq> num 0"
    using xs by (simp add: num_def)
  have news: "stock_news h detail (Inr (JArr xs)) =
          (if detail = full then
             text_result (JSON_stringify (JObj
               [(''message'', JStr (''Displaying '' @ show_nat (length shown) @ '' of '' @
                   show_nat (length xs) @ '' fetched articles (full detail requested, capped at '' @
                   show_nat 10 @ ''):'')),
                (''articles'', JArr shown)]))
           else if 3 < length xs then
             text_result (JSON_stringify (JObj
               [(''message'', JStr (''Displaying summaries for the '' @ show_nat (length shown) @
                   '' most recent of '' @ show_nat (length xs) @ '' articles fetched. Request '' @
                   [CHR 0x27] @ ''full'' @ [CHR 0x27] @ '' detail for more.'')),
                (''articles'', JArr shown)]))
           else text_result (JSON_stringify (JArr shown)))"
  proof (cases detail)
    case summary
    with shown len guard show ?thesis
      by (auto simp: stock_news_def error_text_def ARTICLES_FOR_SUMMARY_def
          ARTICLES_FOR_FULL_DETAIL_def)
  next
    case full
    with shown len guard show ?thesis
      by (auto simp: stock_news_def error_text_def ARTICLES_FOR_SUMMARY_def
          ARTICLES_FOR_FULL_DETAIL_def)
  qed
  have ev: "\<And>ks zs. set zs \<subseteq> set ys \<Longrightarrow>
      mapM (\<lambda>item. bind_result (get item ''date'') (\<lambda>d. Inr (JObj (pick item ks)))) zs =
        Inr (map (\<lambda>item. JObj (pick item ks)) zs)"
    using events by (intro mapM_pure) (auto simp: get_not_nullish)
  have guard': "num (length ys) \<noteq> num 0"
    using ys by (simp add: num_def)
  have earnings: "earnings_calendar h symbol (Inr (JArr ys)) =
         (if (symbol = None \<or> symbol = Some '''') \<and> 10 < length ys then
            text_result (JSON_stringify (JObj
              [(''message'', JStr (''Displaying first '' @ show_nat 10 @ '' of '' @ show_nat (length ys) @
                  '' earnings events. Specify a symbol or a tighter date range for more targeted results.'')),
               (''earningsEvents'', JArr
                  (map (\<lambda>item. JObj (pick item [''date'', ''symbol'', ''epsEstimated'', ''time'']))
                     (take 10 ys)))]))
          else
            text_result (JSON_stringify (JArr
              (map (\<lambda>item. JObj (pick item [''date'', ''symbol'', ''eps'', ''epsEstimated'',
                   ''revenue'', ''revenueEstimated'', ''time'', ''fiscalDateEnding'']))
                 (take 10 ys)))))"
    using guard' ev
    by (simp add: earnings_calendar_def error_text_def MAX_RESULTS_TO_LLM_def set_take_subset)
  from shown len news earnings show ?thesis by auto
qed

theorem capped_collections_witness:
  "stock_news example_host summary
     (Inr (JArr [article ''A'' ''2024-01-04'', article ''B'' ''2024-01-03'',
                 article ''C'' ''2024-01-02'', article ''D'' ''2024-01-01''])) =
   text_result (JSON_stringify (JObj
     [(''message'', JStr (''Displaying summaries for the 3 most recent of 4 articles fetched. Request '' @
         [CHR 0x27] @ ''full'' @ [CHR 0x27] @ '' detail for more.'')),
      (''articles'', JArr
        [JObj [(''title'', JStr ''A''), (''publishedDate'', JStr ''2024-01-04''),
               (''site'', JStr ''example.com''), (''url'', JStr ''https://example.com/a''),
               (''snippet'', JStr ''Short text.'')],
         JObj [(''title'', JStr ''B''), (''publishedDate'', JStr ''2024-01-03''),
               (''site'', JStr ''example.com''), (''url'', JStr ''https://example.com/a''),
               (''snippet'', JStr ''Short text.'')],
         JObj [(''title'', JStr ''C''), (''publishedDate'', JStr ''2024-01-02''),
               (''site'', JStr ''example.com''), (''url'', JStr ''https://example.com/a''),
               (''snippet'', JStr ''Short text.'')]])]))
   \<and> earnings_calendar example_host None
       (Inr (JArr [JObj [(''date'', JStr ''2024-01-04''), (''symbol'', JStr ''AAPL''),
                         (''eps'', JNull)]])) =
     text_result (JSON_stringify (JArr
       [JObj [(''date'', JStr ''2024-01-04''), (''symbol'', JStr ''AAPL''), (''eps'', JNull),
              (''epsEstimated'', JUndefined), (''revenue'', JUndefined),
              (''revenueEstimated'', JUndefined), (''time'', JUndefined),
              (''fiscalDateEnding'', JUndefined)]]))"
  using capped_collections
    [of "[article ''A'' ''2024-01-04'', article ''B'' ''2024-01-03'',
          article ''C'' ''2024-01-02'', article ''D'' ''2024-01-01'']"
        "[JObj [(''date'', JStr ''2024-01-04''), (''symbol'', JStr ''AAPL''), (''eps'', JNull)]]"
        example_host summary None]
  by (simp add: nullish_def article_def summarizedArticle_def get_def truncated_def pick_def
      ToNumber_def num_def show_nat.simps)

section \<open>Projected records\<close>

lemma serialized_text_result [simp]:
  "serialized (text_result (JSON_stringify v)) = [json v]"
  "serialized (text_result (Plain s)) = [JStr s]"
  by (simp_all add: serialized_def text_result_def)
















section \<open>dcf_valuation: the potential upside\<close>

text \<open>
  C6. The examples of the claim, evaluated: a DCF value of 150 (80) at a stock price of
  100 gives 50 (-20) with the upside (downside) message, and a stock price of 0 gives
  null with the message that the upside could not be calculated. But a DCF value equal
  to the stock price, where the claim asks for 0.00, gives null, next to a message that
  states a downside of 0.00%: the field is guarded by the truth value of the
  percentage, the message by its comparison with null.
\<close>

theorem dcf_valuation_examples:
  "dcf_valuation example_host ''AAPL''
     (Inr (JArr [JObj [(''symbol'', JStr ''AAPL''), (''date'', JStr ''2024-01-02''),
                       (''dcf'', JNum (Fin 150)), (''Stock Price'', JNum (Fin 100))]])) =
   text_result (JSON_stringify (JObj
     [(''symbol'', JStr ''AAPL''), (''date'', JStr ''2024-01-02''),
      (''stockPrice'', JNum (Fin 100)), (''dcfValue'', JNum (Fin 150)), (''currency'', JStr ''USD''),
      (''potentialUpsidePercent'', JNum (Fin 50)),
      (''message'', JStr ''DCF suggests a potential upside of 50.00%.'')]))
   \<and> dcf_valuation example_host ''AAPL''
     (Inr (JArr [JObj [(''symbol'', JStr ''AAPL''), (''date'', JStr ''2024-01-02''),
                       (''dcf'', JNum (Fin 80)), (''Stock Price'', JNum (Fin 100))]])) =
   text_result (JSON_stringify (JObj
     [(''symbol'', JStr ''AAPL''), (''date'', JStr ''2024-01-02''),
      (''stockPrice'', JNum (Fin 100)), (''dcfValue'', JNum (Fin 80)), (''currency'', JStr ''USD''),
      (''potentialUpsidePercent'', JNum (Fin (- 20))),
      (''message'', JStr ''DCF suggests a potential downside of 20.00%.'')]))
   \<and> dcf_valuation example_host ''AAPL''
     (Inr (JArr [JObj [(''symbol'', JStr ''AAPL''), (''date'', JStr ''2024-01-02''),
                       (''dcf'', JNum (Fin 150)), (''Stock Price'', JNum (Fin 0))]])) =
   text_result (JSON_stringify (JObj
     [(''symbol'', JStr ''AAPL''), (''date'', JStr ''2024-01-02''),
      (''stockPrice'', JUndefined), (''dcfValue'', JNum (Fin 150)), (''currency'', JStr ''USD''),
      (''potentialUpsidePercent'', JNull),
      (''message'', JStr ''Could not calculate potential upside.'')]))
   \<and> dcf_valuation example_host ''AAPL''
     (Inr (JArr [JObj [(''symbol'', JStr ''AAPL''), (''date'', JStr ''2024-01-02''),
                       (''dcf'', JNum (Fin 100)), (''Stock Price'', JNum (Fin 100))]])) =
   text_result (JSON_stringify (JObj
     [(''symbol'', JStr ''AAPL''), (''date'', JStr ''2024-01-02''),
      (''stockPrice'', JNum (Fin 100)), (''dcfValue'', JNum (Fin 100)), (''currency'', JStr ''USD''),
      (''potentialUpsidePercent'', JNull),
      (''message'', JStr ''DCF suggests a potential downside of 0.00%.'')]))"
  by (simp add: dcf_valuation_def first_or_self_def Object_keys_def summarizedDcf_def
      potentialUpsidePercent_def or_else_def ToNumber_def parseFloat_toFixed2_def toFixed2_def
      Math_abs_def show_nat.simps round_double_eval [where e = 5]
      round_double_eval [where e = 4] round_double_eval [where e = "- 1"]
      round_double_eval [where e = "- 3"] round_double_numeral)

theorem dcf_valuation_examples_witness:
  "dcf_valuation example_host ''AAPL''
     (Inr (JArr [JObj [(''symbol'', JStr ''AAPL''), (''date'', JStr ''2024-01-02''),
                       (''dcf'', JNum (Fin 100)), (''Stock Price'', JNum (Fin 100))]])) =
   text_result (JSON_stringify (JObj
     [(''symbol'', JStr ''AAPL''), (''date'', JStr ''2024-01-02''),
      (''stockPrice'', JNum (Fin 100)), (''dcfValue'', JNum (Fin 100)), (''currency'', JStr ''USD''),
      (''potentialUpsidePercent'', JNull),
      (''message'', JStr ''DCF suggests a potential downside of 0.00%.'')]))"
  using dcf_valuation_examples by blast

section \<open>Truncated text fields\<close>

lemma lookup_description:
  "lookup (JObj
     (pick raw [''symbol'', ''companyName'', ''price'', ''currency'', ''exchangeShortName'',
        ''industry'', ''sector'', ''website''] @
      (''description'', d) # rest)) ''description'' = d"
  by (simp add: pick_def)

lemma lookup_snippet:
  "lookup (JObj (pick raw [''title'', ''publishedDate'', ''site'', ''url''] @ (''snippet'', s) # rest))
     ''snippet'' = s"
  by (simp add: pick_def)

text \<open>
  C7. \<open>raw\<close> is a company profile or a news article (neither null nor undefined) and
  \<open>t\<close> its text: a string, null or undefined. The profile's \<open>description\<close> is \<open>t\<close>
  cut at 300 characters, the article's \<open>snippet\<close> is \<open>t\<close> cut at 200: a longer string
  becomes its first 300 (200) characters followed by the marker
  \<open>... (truncated)\<close> (\<open>...\<close>), of length 300 (200) plus the length of the marker; a
  string at or under the bound, null and undefined are returned as they are.
\<close>

theorem truncated_fields:
  assumes raw: "\<not> nullish raw"
    and t: "t = JNull \<or> t = JUndefined \<or> (\<exists>s. t = JStr s)"
  shows
    "(lookup raw ''description'' = t \<longrightarrow>
        (\<exists>p. summarizedProfile h raw = Inr p \<and>
          lookup p ''description'' =
            (case t of
               JStr s \<Rightarrow> if 300 < length s then JStr (take 300 s @ ''... (truncated)'') else JStr s
             | _ \<Rightarrow> t)))
     \<and> (lookup raw ''text'' = t \<longrightarrow>
        (\<exists>a. summarizedArticle h raw = Inr a \<and>
          lookup a ''snippet'' =
            (case t of
               JStr s \<Rightarrow> if 200 < length s then JStr (take 200 s @ ''...'') else JStr s
             | _ \<Rightarrow> t)))
     \<and> (\<forall>s. 300 < length s \<longrightarrow>
          length (take 300 s @ ''... (truncated)'') = 300 + length ''... (truncated)'')
     \<and> (\<forall>s. 200 < length s \<longrightarrow> length (take 200 s @ ''...'') = 200 + length ''...'')"
proof -
  have profile: "lookup raw ''description'' = t \<Longrightarrow>
      \<exists>p. summarizedProfile h raw = Inr p \<and>
        lookup p ''description'' =
          (case t of
             JStr s \<Rightarrow> if 300 < length s then JStr (take 300 s @ ''... (truncated)'') else JStr s
           | _ \<Rightarrow> t)"
    using t
    by (auto simp: summarizedProfile_def truncated_string lookup_description
        simp del: lookup.simps)
  have article: "lookup raw ''text'' = t \<Longrightarrow>
      \<exists>a. summarizedArticle h raw = Inr a \<and>
        lookup a ''snippet'' =
          (case t of
             JStr s \<Rightarrow> if 200 < length s then JStr (take 200 s @ ''...'') else JStr s
           | _ \<Rightarrow> t)"
    using t raw
    by (auto simp: summarizedArticle_def truncated_string lookup_snippet get_not_nullish
        simp del: lookup.simps)
  from profile article show ?thesis by simp
qed

theorem truncated_fields_witness:
  "(\<exists>p. summarizedProfile example_host
          (JObj [(''description'', JStr (replicate 301 (CHR ''x''))),
                 (''text'', JStr (replicate 301 (CHR ''x'')))]) = Inr p \<and>
        lookup p ''description'' = JStr (replicate 300 (CHR ''x'') @ ''... (truncated)''))
   \<and> (\<exists>a. summarizedArticle example_host
          (JObj [(''description'', JStr (replicate 301 (CHR ''x''))),
                 (''text'', JStr (replicate 301 (CHR ''x'')))]) = Inr a \<and>
        lookup a ''snippet'' = JStr (replicate 200 (CHR ''x'') @ ''...''))"
  using truncated_fields
    [of "JObj [(''description'', JStr (replicate 301 (CHR ''x''))),
               (''text'', JStr (replicate 301 (CHR ''x'')))]"
        "JStr (replicate 301 (CHR ''x''))" example_host]
  by (simp add: nullish_def)

section \<open>Every outcome is one text item\<close>

lemma bind_result_InrE:
  assumes "bind_result r f = Inr t"
  obtains v where "r = Inr v" "f v = Inr t"
  using assms by (cases r) (simp_all add: bind_result_def)

lemma one_text_item_text_result [simp]: "one_text_item (text_result t) = text_is_string t"
  by (simp add: one_text_item_def text_result_def)

lemma text_is_string_simps [simp]:
  "text_is_string (Plain s)"
  "text_is_string (JSON_stringify (JObj kvs))"
  "text_is_string (JSON_stringify (JArr xs))"
  by (simp_all add: text_is_string_def)

lemma one_text_item_error_text:
  "(\<And>t. r = Inr t \<Longrightarrow> text_is_string t) \<Longrightarrow> one_text_item (error_text prefix r)"
  by (cases r) (simp_all add: error_text_def)

lemma search_symbol_one_text: "one_text_item (search_symbol r)"
  unfolding search_symbol_def
  by (rule one_text_item_error_text)
     (auto elim!: bind_result_InrE split: if_splits jsval.splits)

lemma company_profile_one_text: "one_text_item (company_profile h r)"
  unfolding company_profile_def
  by (rule one_text_item_error_text)
     (auto elim!: bind_result_InrE split: if_splits simp: Let_def summarizedProfile_def)

lemma quote_one_text: "one_text_item (quote r)"
  unfolding quote_def
  by (rule one_text_item_error_text)
     (auto elim!: bind_result_InrE split: if_splits simp: Let_def summarizedQuote_def)

lemma technical_indicator_one_text:
  "one_text_item (technical_indicator symbol interval indicator_type period r)"
  unfolding technical_indicator_def
  by (rule one_text_item_error_text)
     (auto elim!: bind_result_InrE split: if_splits jsval.splits simp: text_is_string_def)

lemma analyst_estimates_one_text: "one_text_item (analyst_estimates h symbol r1 r2)"
  unfolding analyst_estimates_def
  by (rule one_text_item_error_text)
     (auto elim!: bind_result_InrE split: if_splits simp: Let_def)

lemma stock_news_one_text: "one_text_item (stock_news h detail r)"
  unfolding stock_news_def
  by (rule one_text_item_error_text)
     (auto elim!: bind_result_InrE split: if_splits jsval.splits simp: Let_def)

lemma earnings_calendar_one_text: "one_text_item (earnings_calendar h symbol r)"
  unfolding earnings_calendar_def
  by (rule one_text_item_error_text)
     (auto elim!: bind_result_InrE split: if_splits)

lemma financial_ratios_ttm_one_text: "one_text_item (financial_ratios_ttm symbol r)"
  unfolding financial_ratios_ttm_def
  by (rule one_text_item_error_text)
     (auto elim!: bind_result_InrE split: if_splits simp: Let_def)

lemma key_metrics_ttm_one_text: "one_text_item (key_metrics_ttm symbol r)"
  unfolding key_metrics_ttm_def
  by (rule one_text_item_error_text)
     (auto elim!: bind_result_InrE split: if_splits simp: Let_def)

lemma historical_body_string: "historical_body h detail data = Inr t \<Longrightarrow> text_is_string t"
  unfolding historical_body_def
  by (auto elim!: bind_result_InrE split: if_splits simp: Let_def summarizedHistory_def)

lemma historical_stock_data_one_text: "one_text_item (historical_stock_data h detail r)"
proof (cases "bind_result r (historical_body h detail)")
  case (Inl e)
  then show ?thesis by (simp add: historical_stock_data_def)
next
  case (Inr t)
  then have "text_is_string t"
    by (auto elim!: bind_result_InrE dest: historical_body_string)
  with Inr show ?thesis by (simp add: historical_stock_data_def)
qed

lemma dcf_valuation_one_text: "one_text_item (dcf_valuation h symbol r)"
  unfolding dcf_valuation_def
  by (cases r) (auto simp: Let_def summarizedDcf_def)

lemma dividend_body_string: "dividend_body h symbol limit data = Inr t \<Longrightarrow> text_is_string t"
  unfolding dividend_body_def
  by (auto elim!: bind_result_InrE split: if_splits)

lemma dividend_calendar_one_text: "one_text_item (dividend_calendar h symbol limit r)"
proof (cases "bind_result r (dividend_body h symbol limit)")
  case (Inl e)
  then show ?thesis by (simp add: dividend_calendar_def)
next
  case (Inr t)
  then have "text_is_string t"
    by (auto elim!: bind_result_InrE dest: dividend_body_string)
  with Inr show ?thesis by (simp add: dividend_calendar_def)
qed

text \<open>
  C8, as the claim states it, fails: when the provider answers with an object that has
  no keys, \<open>technical_indicator\<close> returns that object as the text \<^verbatim>\<open>{}\<close>, not a text
  stating that no data was found (the handler passes on whatever is not an array: the
  direct value if not).
\<close>

theorem technical_indicator_empty_object:
  "technical_indicator ''AAPL'' ''daily'' ''SMA'' 10 (Inr (JObj [])) =
   text_result (JSON_stringify (JObj []))"
  by (simp add: technical_indicator_def error_text_def isArray_def)

text \<open>
  C8, amended. Whatever the provider does (the request is rejected, or it answers with
  any JSON value), every tool returns a content of exactly one item, of type text,
  whose text is a string: an exception raised in a handler is turned into text by its
  \<open>catch\<close>.

  The text is the tool's no-data message when the provider answers with an empty array
  (for the two tools that read the key \<open>historical\<close>, also with an empty array under
  that key); when it answers with null, for every tool but the two that read the key
  \<open>historical\<close>; and when it answers with an object that has no keys, for
  \<open>company_profile\<close>, \<open>quote\<close>, \<open>historical_stock_data\<close>, \<open>financial_ratios_ttm\<close>,
  \<open>key_metrics_ttm\<close>, \<open>dcf_valuation\<close> and \<open>dividend_calendar\<close>.
  \<open>technical_indicator\<close> returns an answer that is truthy and not an array as it is.
\<close>

theorem every_outcome_is_one_text_item:
  "one_text_item (search_symbol r)
   \<and> one_text_item (company_profile h r)
   \<and> one_text_item (quote r)
   \<and> one_text_item (historical_stock_data h detail r)
   \<and> one_text_item (technical_indicator symbol interval indicator_type period r)
   \<and> one_text_item (analyst_estimates h symbol r r')
   \<and> one_text_item (stock_news h detail r)
   \<and> one_text_item (earnings_calendar h optional_symbol r)
   \<and> one_text_item (financial_ratios_ttm symbol r)
   \<and> one_text_item (key_metrics_ttm symbol r)
   \<and> one_text_item (dcf_valuation h symbol r)
   \<and> one_text_item (dividend_calendar h symbol limit r)
   \<and> (\<forall>empty\<in>{JArr [], JNull}.
        search_symbol (Inr empty) = text_result (Plain ''No symbols found matching your query.'')
        \<and> technical_indicator symbol interval indicator_type period (Inr empty) =
            text_result (Plain (''No '' @ indicator_type @ '' data found for '' @ symbol @
              '' with period '' @ show_nat period @ '' on '' @ interval @ '' interval.''))
        \<and> analyst_estimates h symbol (Inr empty) (Inr empty) =
            text_result (Plain ''No analyst estimates or price target data found for the symbol.'')
        \<and> stock_news h detail (Inr empty) =
            text_result (Plain ''No news found for the given symbol(s).'')
        \<and> earnings_calendar h optional_symbol (Inr empty) =
            text_result (Plain ''No earnings calendar data found for the given parameters.''))
   \<and> (\<forall>empty\<in>{JArr [], JNull, JObj []}.
        company_profile h (Inr empty) =
            text_result (Plain ''No company profile data found for the symbol.'')
        \<and> quote (Inr empty) = text_result (Plain ''No quote data found for the symbol.'')
        \<and> financial_ratios_ttm symbol (Inr empty) =
            text_result (Plain ''No TTM financial ratios found for the symbol.'')
        \<and> key_metrics_ttm symbol (Inr empty) =
            text_result (Plain ''No TTM key metrics found for the symbol.'')
        \<and> dcf_valuation h symbol (Inr empty) =
            text_result (Plain (''No DCF valuation data found for '' @ symbol @
              ''. This might be due to data availability or the company type.'')))
   \<and> (\<forall>empty\<in>{JArr [], JObj [], JObj [(''historical'', JArr [])]}.
        historical_stock_data h detail (Inr empty) =
            text_result (Plain ''No historical data found for the given parameters.'')
        \<and> dividend_calendar h symbol limit (Inr empty) =
            text_result (Plain (''No dividend data found for '' @ symbol @
              ''. The company may not pay dividends or data may be unavailable.'')))
   \<and> (\<forall>v. truthy v \<and> \<not> isArray v \<longrightarrow>
        technical_indicator symbol interval indicator_type period (Inr v) =
          text_result (JSON_stringify v))"
proof -
  have arrays_and_null: "\<forall>empty\<in>{JArr [], JNull}.
        search_symbol (Inr empty) = text_result (Plain ''No symbols found matching your query.'')
        \<and> technical_indicator symbol interval indicator_type period (Inr empty) =
            text_result (Plain (''No '' @ indicator_type @ '' data found for '' @ symbol @
              '' with period '' @ show_nat period @ '' on '' @ interval @ '' interval.''))
        \<and> analyst_estimates h symbol (Inr empty) (Inr empty) =
            text_result (Plain ''No analyst estimates or price target data found for the symbol.'')
        \<and> stock_news h detail (Inr empty) =
            text_result (Plain ''No news found for the given symbol(s).'')
        \<and> earnings_calendar h optional_symbol (Inr empty) =
            text_result (Plain ''No earnings calendar data found for the given parameters.'')"
    by (simp add: search_symbol_def technical_indicator_def analyst_estimates_def stock_news_def
        earnings_calendar_def error_text_def first_or_self_def isArray_def num_def)
  have records: "\<forall>empty\<in>{JArr [], JNull, JObj []}.
        company_profile h (Inr empty) =
            text_result (Plain ''No company profile data found for the symbol.'')
        \<and> quote (Inr empty) = text_result (Plain ''No quote data found for the symbol.'')
        \<and> financial_ratios_ttm symbol (Inr empty) =
            text_result (Plain ''No TTM financial ratios found for the symbol.'')
        \<and> key_metrics_ttm symbol (Inr empty) =
            text_result (Plain ''No TTM key metrics found for the symbol.'')
        \<and> dcf_valuation h symbol (Inr empty) =
            text_result (Plain (''No DCF valuation data found for '' @ symbol @
              ''. This might be due to data availability or the company type.''))"
    by (simp add: company_profile_def quote_def financial_ratios_ttm_def key_metrics_ttm_def
        dcf_valuation_def error_text_def first_or_self_def Object_keys_def)
  have historical: "\<forall>empty\<in>{JArr [], JObj [], JObj [(''historical'', JArr [])]}.
        historical_stock_data h detail (Inr empty) =
            text_result (Plain ''No historical data found for the given parameters.'')
        \<and> dividend_calendar h symbol limit (Inr empty) =
            text_result (Plain (''No dividend data found for '' @ symbol @
              ''. The company may not pay dividends or data may be unavailable.''))"
    by (simp add: historical_stock_data_def historical_body_def dividend_calendar_def
        dividend_body_def get_def or_else_def isArray_def num_def Object_keys_def)
  have passed_on: "\<forall>v. truthy v \<and> \<not> isArray v \<longrightarrow>
        technical_indicator symbol interval indicator_type period (Inr v) =
          text_result (JSON_stringify v)"
    by (auto simp: technical_indicator_def error_text_def isArray_def split: jsval.splits)
  show ?thesis
    by (intro conjI search_symbol_one_text company_profile_one_text quote_one_text
        historical_stock_data_one_text technical_indicator_one_text analyst_estimates_one_text
        stock_news_one_text earnings_calendar_one_text financial_ratios_ttm_one_text
        key_metrics_ttm_one_text dcf_valuation_one_text dividend_calendar_one_text
        arrays_and_null records historical passed_on)
qed

theorem every_outcome_is_one_text_item_witness:
  "one_text_item (historical_stock_data example_host summary (Inl (AxiosError ''Network Error'' None)))
   \<and> one_text_item (stock_news example_host summary (Inl (AxiosError ''Network Error'' None)))
   \<and> stock_news example_host summary (Inr JNull) =
       text_result (Plain ''No news found for the given symbol(s).'')
   \<and> quote (Inr (JObj [])) = text_result (Plain ''No quote data found for the symbol.'')
   \<and> dividend_calendar example_host ''AAPL'' 10 (Inr (JObj [(''historical'', JArr [])])) =
       text_result (Plain ''No dividend data found for AAPL. The company may not pay dividends or data may be unavailable.'')
   \<and> technical_indicator ''AAPL'' ''daily'' ''SMA'' 10 (Inr (JObj [(''sma'', JNum (Fin 11))])) =
       text_result (JSON_stringify (JObj [(''sma'', JNum (Fin 11))]))"
  using every_outcome_is_one_text_item
    [where r = "Inl (AxiosError ''Network Error'' None)" and h = example_host and detail = summary
       and symbol = "''AAPL''" and limit = 10 and interval = "''daily''"
       and indicator_type = "''SMA''" and period = 10]
  by (simp add: isArray_def)

section \<open>analyst_estimates: two sources\<close>

text \<open>
  C9, as the claim states it, fails: when the request for the estimates is rejected and
  the price-target summary is there, the tool returns the error text and no
  price-target section.
\<close>

theorem analyst_estimates_failed_fetch:
  "analyst_estimates example_host ''AAPL''
     (Inl (AxiosError ''Request failed with status code 500'' None))
     (Inr (JArr [JObj [(''symbol'', JStr ''AAPL''), (''targetHigh'', JNum (Fin 250))]])) =
   text_result (Plain ''Error in analyst_estimates: Request failed with status code 500'')"
  by (simp add: analyst_estimates_def error_text_def)

text \<open>
  C9, amended. Both requests are answered: the estimates with an array \<open>es\<close> (no entry
  null), the price-target summary with any value \<open>p\<close>, of which the first entry is
  taken when it is an array. The price-target section is there exactly when that value
  is truthy, the estimates section (the first two entries, and the note on
  recommendations) exactly when \<open>es\<close> is not empty; the no-data text is returned only
  when both are absent. When either request is rejected the tool returns the error
  text, whatever the other one gave.
\<close>

theorem analyst_estimates_sections:
  assumes entries: "\<forall>e\<in>set es. \<not> nullish e"
  shows
    "analyst_estimates h symbol (Inr (JArr es)) (Inr p) =
       (if es = [] \<and> \<not> truthy (first_or_self p) then
          text_result (Plain ''No analyst estimates or price target data found for the symbol.'')
        else
          text_result (JSON_stringify (JObj
            ([(''symbol'', JStr symbol),
              (''sourceMessage'', JStr ''Summarized analyst estimates. More historical/detailed data might be available via direct API.'')] @
             (if truthy (first_or_self p) then
                [(''priceTargetSummary'', JObj (pick (first_or_self p)
                   [''lastUpdated'', ''targetHigh'', ''targetLow'', ''targetConsensus'',
                    ''targetMedian'', ''numberOfAnalysts'']))]
              else []) @
             (if es = [] then []
              else
                [(''recentEstimates'', JArr
                    (map (\<lambda>est. JObj (pick est [''date'', ''estimatedRevenueAvg'', ''estimatedEpsAvg'']))
                       (take 2 es))),
                 (''recommendationInfo'', JStr ''Detailed buy/hold/sell counts not directly available in this summary. FMP has separate recommendation endpoints.'')])))))
     \<and> analyst_estimates h symbol (Inl error) r =
         text_result (Plain (''Error in analyst_estimates: '' @ message error))
     \<and> analyst_estimates h symbol (Inr d) (Inl error) =
         text_result (Plain (''Error in analyst_estimates: '' @ message error))"
proof -
  have est: "\<And>ks zs. set zs \<subseteq> set es \<Longrightarrow>
      mapM (\<lambda>est. bind_result (get est ''date'') (\<lambda>d. Inr (JObj (pick est ks)))) zs =
        Inr (map (\<lambda>est. JObj (pick est ks)) zs)"
    using entries by (intro mapM_pure) (auto simp: get_not_nullish)
  have len: "es \<noteq> [] \<Longrightarrow> num (length es) \<noteq> num 0" "num (0::nat) = num 0"
    by (simp_all add: num_def)
  have answered: "analyst_estimates h symbol (Inr (JArr es)) (Inr p) =
       (if es = [] \<and> \<not> truthy (first_or_self p) then
          text_result (Plain ''No analyst estimates or price target data found for the symbol.'')
        else
          text_result (JSON_stringify (JObj
            ([(''symbol'', JStr symbol),
              (''sourceMessage'', JStr ''Summarized analyst estimates. More historical/detailed data might be available via direct API.'')] @
             (if truthy (first_or_self p) then
                [(''priceTargetSummary'', JObj (pick (first_or_self p)
                   [''lastUpdated'', ''targetHigh'', ''targetLow'', ''targetConsensus'',
                    ''targetMedian'', ''numberOfAnalysts'']))]
              else []) @
             (if es = [] then []
              else
                [(''recentEstimates'', JArr
                    (map (\<lambda>est. JObj (pick est [''date'', ''estimatedRevenueAvg'', ''estimatedEpsAvg'']))
                       (take 2 es))),
                 (''recommendationInfo'', JStr ''Detailed buy/hold/sell counts not directly available in this summary. FMP has separate recommendation endpoints.'')])))))"
    using est len
    by (cases "es = []")
       (simp_all add: analyst_estimates_def error_text_def Let_def set_take_subset)
  have rejected:
    "analyst_estimates h symbol (Inl error) r =
       text_result (Plain (''Error in analyst_estimates: '' @ message error))"
    "analyst_estimates h symbol (Inr d) (Inl error) =
       text_result (Plain (''Error in analyst_estimates: '' @ message error))"
    by (simp_all add: analyst_estimates_def error_text_def)
  from answered rejected show ?thesis by blast
qed

theorem analyst_estimates_sections_witness:
  "analyst_estimates example_host ''AAPL''
     (Inr (JArr [JObj [(''date'', JStr ''2024-01-02''), (''estimatedEpsAvg'', JNum (Fin 2))]]))
     (Inr (JArr [])) =
   text_result (JSON_stringify (JObj
     [(''symbol'', JStr ''AAPL''),
      (''sourceMessage'', JStr ''Summarized analyst estimates. More historical/detailed data might be available via direct API.''),
      (''recentEstimates'', JArr
         [JObj [(''date'', JStr ''2024-01-02''), (''estimatedRevenueAvg'', JUndefined),
                (''estimatedEpsAvg'', JNum (Fin 2))]]),
      (''recommendationInfo'', JStr ''Detailed buy/hold/sell counts not directly available in this summary. FMP has separate recommendation endpoints.'')]))"
  using analyst_estimates_sections
    [of "[JObj [(''date'', JStr ''2024-01-02''), (''estimatedEpsAvg'', JNum (Fin 2))]]"
        example_host "''AAPL''" "JArr []"]
  by (simp add: nullish_def first_or_self_def pick_def)

section \<open>technical_indicator: shape of the payload\<close>




end
